theory Spec2Isabelle
  imports Main "HOL-Library.Word"
begin

unbundle bit_operations_syntax

text \<open>
  A model of the prerendering cache of the backend: the cache paths and the cache store
  (\<^verbatim>\<open>DiskPrerenderedCacheClass\<close>), the read path (\<^verbatim>\<open>get_xml_passage_or_cache\<close>,
  \<^verbatim>\<open>custom_document_view\<close>) of \<^verbatim>\<open>app/prerendering.py\<close>, and the batch generator
  (\<^verbatim>\<open>_prerender_collection\<close>) of \<^verbatim>\<open>app/cli.py\<close>. Definitions keep the names of the source.
  Where a name of the source is taken in Isabelle, it is changed: the parameter \<^verbatim>\<open>end\<close> is
  \<open>rend\<close>, the columns \<^verbatim>\<open>id\<close> and \<^verbatim>\<open>identifier\<close> of a collection are \<open>coll_id\<close> and
  \<open>coll_identifier\<close>, the column \<^verbatim>\<open>id\<close> of a navigation is \<open>nav_id\<close>, and
  \<^verbatim>\<open>_prerender_collection\<close> is \<open>prerender_collection\<close>. Printing and logging are left out.
\<close>

section \<open>Python values\<close>

text \<open>
  The values \<^verbatim>\<open>json.load\<close> produces. \<open>JNull\<close> is Python's \<^verbatim>\<open>None\<close>; an object is
  the list of its members in file order (a later duplicate of a key wins, as in
  \<^verbatim>\<open>json.load\<close>). Floating-point numbers are left out: no code below looks at a number.
  A Python \<^verbatim>\<open>str\<close> is modelled by its UTF-8 bytes, so \<^verbatim>\<open>s.encode("utf-8")\<close> is the identity
  and the empty \<^verbatim>\<open>str\<close> is the empty list.
\<close>

datatype json =
    JNull
  | JBool bool
  | JNum int
  | JStr string
  | JArr "json list"
  | JObj "(string \<times> json) list"

text \<open>Python truthiness, as tested by \<^verbatim>\<open>if x:\<close> and \<^verbatim>\<open>not x\<close>.\<close>

fun truthy :: "json \<Rightarrow> bool" where
  "truthy JNull = False"
| "truthy (JBool b) = b"
| "truthy (JNum n) = (n \<noteq> 0)"
| "truthy (JStr s) = (s \<noteq> [])"
| "truthy (JArr xs) = (xs \<noteq> [])"
| "truthy (JObj kvs) = (kvs \<noteq> [])"

text \<open>Truthiness of an \<^verbatim>\<open>Optional[str]\<close>, and \<^verbatim>\<open>a or b\<close> on two of them.\<close>

definition truthy_str :: "string option \<Rightarrow> bool" where
  "truthy_str s = (case s of None \<Rightarrow> False | Some v \<Rightarrow> v \<noteq> [])"

definition py_or :: "string option \<Rightarrow> string option \<Rightarrow> string option" where
  "py_or a b = (if truthy_str a then a else b)"

text \<open>\<^verbatim>\<open>data.get(key)\<close> on a dict read from a JSON object: \<^verbatim>\<open>None\<close> when the key is absent.\<close>

definition dict_get :: "(string \<times> json) list \<Rightarrow> string \<Rightarrow> json" where
  "dict_get kvs k = (case map_of (rev kvs) k of None \<Rightarrow> JNull | Some v \<Rightarrow> v)"

text \<open>The exceptions that occur in the code below.\<close>

datatype exn =
    OSError
  | JSONDecodeError
  | UnicodeDecodeError
  | AttributeError
  | KeyError
  | ValueError
  | EngineError string

section \<open>SHA-1, as \<^verbatim>\<open>hashlib.sha1(...).hexdigest()\<close> computes it\<close>

text \<open>
  \<^verbatim>\<open>hashlib\<close> is the standard library's implementation of FIPS 180-4; the digest is
  written out here on 32-bit words so that cache paths are computed, not assumed.
\<close>

type_synonym word32 = "32 word"

definition rotl32 :: "nat \<Rightarrow> word32 \<Rightarrow> word32" where
  "rotl32 n x = push_bit n x OR drop_bit (32 - n) x"

definition sha1_pad :: "nat list \<Rightarrow> nat list" where
  "sha1_pad bs =
     bs @ [128] @ replicate ((119 - length bs mod 64) mod 64) 0 @
     map (\<lambda>i. (8 * length bs) div 2 ^ (8 * i) mod 256) [7, 6, 5, 4, 3, 2, 1, 0]"

definition be_word :: "nat list \<Rightarrow> word32" where
  "be_word bs = word_of_nat (foldl (\<lambda>acc b. acc * 256 + b) 0 bs)"

definition block_words :: "nat list \<Rightarrow> word32 list" where
  "block_words blk = map (\<lambda>i. be_word (take 4 (drop (4 * i) blk))) [0..<16]"

definition schedule_step :: "word32 list \<Rightarrow> word32 list" where
  "schedule_step ws =
     ws @ [rotl32 1 (ws ! (length ws - 3) XOR ws ! (length ws - 8) XOR
                     ws ! (length ws - 14) XOR ws ! (length ws - 16))]"

definition schedule :: "word32 list \<Rightarrow> word32 list" where
  "schedule ws = foldl (\<lambda>acc t. schedule_step acc) ws [16..<80]"

type_synonym sha1_state = "word32 \<times> word32 \<times> word32 \<times> word32 \<times> word32"

definition sha1_f :: "nat \<Rightarrow> word32 \<Rightarrow> word32 \<Rightarrow> word32 \<Rightarrow> word32" where
  "sha1_f t b c d =
     (if t < 20 then (b AND c) OR (NOT b AND d)
      else if t < 40 then b XOR c XOR d
      else if t < 60 then (b AND c) OR (b AND d) OR (c AND d)
      else b XOR c XOR d)"

definition sha1_k :: "nat \<Rightarrow> word32" where
  "sha1_k t =
     (if t < 20 then 0x5A827999 else if t < 40 then 0x6ED9EBA1
      else if t < 60 then 0x8F1BBCDC else 0xCA62C1D6)"

fun sha1_round :: "sha1_state \<Rightarrow> nat \<times> word32 \<Rightarrow> sha1_state" where
  "sha1_round (a, b, c, d, e) (t, w) =
     (rotl32 5 a + sha1_f t b c d + e + sha1_k t + w, a, rotl32 30 b, c, d)"

fun add_state :: "sha1_state \<Rightarrow> sha1_state \<Rightarrow> sha1_state" where
  "add_state (h0, h1, h2, h3, h4) (a, b, c, d, e) = (h0 + a, h1 + b, h2 + c, h3 + d, h4 + e)"

definition sha1_block :: "sha1_state \<Rightarrow> nat list \<Rightarrow> sha1_state" where
  "sha1_block h blk =
     add_state h (foldl sha1_round h (zip [0..<80] (schedule (block_words blk))))"

definition sha1 :: "nat list \<Rightarrow> sha1_state" where
  "sha1 bs =
     foldl sha1_block (0x67452301, 0xEFCDAB89, 0x98BADCFE, 0x10325476, 0xC3D2E1F0)
       (map (\<lambda>i. take 64 (drop (64 * i) (sha1_pad bs))) [0..<length (sha1_pad bs) div 64])"

definition hexdigit :: "nat \<Rightarrow> char" where
  "hexdigit n = ''0123456789abcdef'' ! n"

definition hex_word32 :: "word32 \<Rightarrow> string" where
  "hex_word32 w =
     map (\<lambda>i. hexdigit (unat (drop_bit (4 * i) w AND 15))) [7, 6, 5, 4, 3, 2, 1, 0]"

fun hexdigest :: "sha1_state \<Rightarrow> string" where
  "hexdigest (a, b, c, d, e) = concat (map hex_word32 [a, b, c, d, e])"

definition sha1_hexdigest :: "string \<Rightarrow> string" where
  "sha1_hexdigest s = hexdigest (sha1 (map of_char s))"

section \<open>Cache paths (\<^verbatim>\<open>DiskPrerenderedCacheClass\<close>, prerendering.py lines 45--81)\<close>

text \<open>
  The configuration of a cache instance. The process-wide instance
  \<^verbatim>\<open>DiskPrerenderedCache\<close> has the defaults \<open>LEVELS = 3\<close>, \<open>CHARS_PER_LEVEL = 2\<close> and
  takes \<open>ROOT\<close> from the environment. The \<^verbatim>\<open>verbose\<close> flag only prints and is left out.
\<close>

record cache =
  ROOT :: string
  LEVELS :: nat
  CHARS_PER_LEVEL :: nat

text \<open>\<^verbatim>\<open>posixpath.join\<close>: one step of its loop, then the loop.\<close>

definition join2 :: "string \<Rightarrow> string \<Rightarrow> string" where
  "join2 path b =
     (if b \<noteq> [] \<and> hd b = CHR ''/'' then b
      else if path = [] \<or> last path = CHR ''/'' then path @ b
      else path @ ''/'' @ b)"

definition os_path_join :: "string list \<Rightarrow> string" where
  "os_path_join ps = foldl join2 (hd ps) (tl ps)"

text \<open>
  A \<^verbatim>\<open>pathlib.Path\<close> is modelled by its string; \<^verbatim>\<open>p / s\<close> joins like \<^verbatim>\<open>posixpath.join\<close>
  (pathlib's normalisation of \<open>ROOT\<close> itself is not modelled: \<open>ROOT\<close> is taken as given).
\<close>

definition path_div :: "string \<Rightarrow> string \<Rightarrow> string" where
  "path_div p s = join2 p s"

definition short_sha :: "string \<Rightarrow> nat \<Rightarrow> string" where
  "short_sha s n = take n (sha1_hexdigest s)"

definition safe_filename :: "string \<Rightarrow> string" where
  "safe_filename s = short_sha s 8"

text \<open>Python slices clamp at the end of the string, as \<open>take\<close> and \<open>drop\<close> do.\<close>

definition subfolders_of :: "cache \<Rightarrow> string \<Rightarrow> string" where
  "subfolders_of c sha =
     os_path_join
       (map (\<lambda>i. take (CHARS_PER_LEVEL c) (drop (i * CHARS_PER_LEVEL c) sha)) [0..<LEVELS c]
        @ [sha])"

definition sha_subfolders :: "cache \<Rightarrow> string \<Rightarrow> string" where
  "sha_subfolders c identifier = subfolders_of c (sha1_hexdigest identifier)"

fun str_join :: "string \<Rightarrow> string list \<Rightarrow> string" where
  "str_join sep [] = []"
| "str_join sep [x] = x"
| "str_join sep (x # y # ys) = x @ sep @ str_join sep (y # ys)"

text \<open>The optional part of the file name: \<^verbatim>\<open>if end: filename_parts.append(...)\<close>.\<close>

definition end_part :: "string option \<Rightarrow> string list" where
  "end_part rend =
     (case rend of None \<Rightarrow> [] | Some e \<Rightarrow> if e \<noteq> [] then [safe_filename e] else [])"

definition get_cache_path ::
  "cache \<Rightarrow> string \<Rightarrow> string \<Rightarrow> string option \<Rightarrow> string \<Rightarrow> string \<Rightarrow> string" where
  "get_cache_path c identifier ref rend media tree =
     (let base = path_div (ROOT c) (sha_subfolders c identifier);
          filename_parts =
            [safe_filename tree, safe_filename ref] @ end_part rend @ [safe_filename media];
          filename = str_join ''__'' filename_parts @ ''.prerender''
      in path_div base filename)"

section \<open>The cache directory and the trace of effects\<close>

text \<open>
  A file of the cache directory is modelled by what \<^verbatim>\<open>open(path, "r")\<close> followed by
  \<^verbatim>\<open>json.load\<close> does with it (the JSON library is not part of the repository):
  \<^item> \<open>Unreadable\<close>: the path exists but \<^verbatim>\<open>open\<close> raises \<^verbatim>\<open>OSError\<close> (a directory, no
    permission);
  \<^item> \<open>Undecodable\<close>: the bytes are not UTF-8, reading raises \<^verbatim>\<open>UnicodeDecodeError\<close>;
  \<^item> \<open>NotJson\<close>: the text is not JSON, \<^verbatim>\<open>json.load\<close> raises \<^verbatim>\<open>JSONDecodeError\<close>. An empty
    file and every proper prefix of a written envelope are of this kind;
  \<^item> \<open>Json v\<close>: the text parses to the value \<open>v\<close>.
  The file that \<^verbatim>\<open>json.dump({"content": content}, f)\<close> writes is \<open>Json (envelope content)\<close>.
\<close>

datatype cache_file = Unreadable | Undecodable | NotJson | Json json

definition envelope :: "string \<Rightarrow> json" where
  "envelope content = JObj [(''content'', JStr content)]"

text \<open>
  The directory tree: the files by path, and the faults of the environment, which decide
  where \<^verbatim>\<open>mkdir\<close>, \<^verbatim>\<open>open(path, "w")\<close> and the write itself raise \<^verbatim>\<open>OSError\<close>.
  Directories hold no content of their own and are not listed: creating one shows as
  the event \<open>CacheMkdir\<close> of the trace below.
\<close>

record disk =
  files :: "string \<rightharpoonup> cache_file"
  mkdir_fails :: "string \<Rightarrow> bool"
  open_fails :: "string \<Rightarrow> bool"
  write_fails :: "string \<Rightarrow> bool"

text \<open>
  Every access to the cache directory and every call of an external engine is logged, so
  that calls can be counted.
\<close>

datatype event =
    CacheRead string
  | CacheMkdir string
  | CacheOpenW string
  | CacheWrite string string
  | Extract string string "string option" string
  | Transform string json

record world =
  disk :: disk
  trace :: "event list"

definition emit :: "event \<Rightarrow> world \<Rightarrow> world" where
  "emit e w = w\<lparr>trace := trace w @ [e]\<rparr>"

definition set_file :: "string \<Rightarrow> cache_file \<Rightarrow> world \<Rightarrow> world" where
  "set_file p f w = w\<lparr>disk := (disk w)\<lparr>files := (files (disk w))(p \<mapsto> f)\<rparr>\<rparr>"

text \<open>A computation that may raise: the result or the exception, and the world it leaves.\<close>

type_synonym 'a result = "(exn + 'a) \<times> world"

definition and_then :: "'a result \<Rightarrow> ('a \<Rightarrow> world \<Rightarrow> 'b result) \<Rightarrow> 'b result" where
  "and_then m f = (case m of (Inl e, w) \<Rightarrow> (Inl e, w) | (Inr a, w) \<Rightarrow> f a w)"

section \<open>\<^verbatim>\<open>get_cache\<close> and \<^verbatim>\<open>save_cache\<close> (prerendering.py lines 83--115)\<close>

record collection =
  coll_id :: nat
  coll_identifier :: string
  filepath :: string
  default_tree :: "string option"

text \<open>
  \<^verbatim>\<open>get_cache\<close>: a missing path is a miss; \<^verbatim>\<open>IOError\<close> and \<^verbatim>\<open>JSONDecodeError\<close> are caught and
  give a miss; any other exception leaves the function. \<^verbatim>\<open>data.get\<close> exists on a dict only.
\<close>

definition get_cache ::
  "cache \<Rightarrow> collection \<Rightarrow> string \<Rightarrow> string option \<Rightarrow> string \<Rightarrow> string \<Rightarrow> world \<Rightarrow> json result"
  where
  "get_cache c collection ref rend media tree w =
     (let path = get_cache_path c (coll_identifier collection) ref rend media tree;
          w' = emit (CacheRead path) w
      in case files (disk w) path of
           None \<Rightarrow> (Inr JNull, w')
         | Some Unreadable \<Rightarrow> (Inr JNull, w')
         | Some NotJson \<Rightarrow> (Inr JNull, w')
         | Some Undecodable \<Rightarrow> (Inl UnicodeDecodeError, w')
         | Some (Json data) \<Rightarrow>
             (case data of
                JObj kvs \<Rightarrow> (Inr (dict_get kvs ''content''), w')
              | _ \<Rightarrow> (Inl AttributeError, w')))"

text \<open>
  \<^verbatim>\<open>path.parent\<close>: the path without its last component (a cache path has at least the
  digest directory and the file name).
\<close>

definition parent :: "string \<Rightarrow> string" where
  "parent p = rev (tl (dropWhile (\<lambda>ch. ch \<noteq> CHR ''/'') (rev p)))"

text \<open>
  \<^verbatim>\<open>save_cache\<close> in its two halves. First \<^verbatim>\<open>path.parent.mkdir(...)\<close>, outside the
  \<^verbatim>\<open>try\<close>, and \<^verbatim>\<open>open(path, "w")\<close>, which truncates the file at the final path; the
  result says whether the file is open. Then \<^verbatim>\<open>json.dump\<close> and the close of the file.
  An \<^verbatim>\<open>OSError\<close> inside the \<^verbatim>\<open>try\<close> is swallowed.
\<close>

definition save_cache_open ::
  "cache \<Rightarrow> string \<Rightarrow> string \<Rightarrow> string option \<Rightarrow> string \<Rightarrow> string \<Rightarrow> world \<Rightarrow> bool result"
  where
  "save_cache_open c ident ref rend media tree w =
     (let path = get_cache_path c ident ref rend media tree;
          w1 = emit (CacheMkdir (parent path)) w
      in if mkdir_fails (disk w) (parent path) then (Inl OSError, w1)
         else if open_fails (disk w) path then (Inr False, w1)
         else (Inr True, set_file path NotJson (emit (CacheOpenW path) w1)))"

definition save_cache_dump ::
  "cache \<Rightarrow> string \<Rightarrow> string \<Rightarrow> string option \<Rightarrow> string \<Rightarrow> string \<Rightarrow> string \<Rightarrow> world \<Rightarrow> unit result"
  where
  "save_cache_dump c ident ref rend media tree content w =
     (let path = get_cache_path c ident ref rend media tree
      in if write_fails (disk w) path then (Inr (), w)
         else (Inr (), set_file path (Json (envelope content)) (emit (CacheWrite path content) w)))"

definition save_cache ::
  "cache \<Rightarrow> string \<Rightarrow> string \<Rightarrow> string option \<Rightarrow> string \<Rightarrow> string \<Rightarrow> string \<Rightarrow> world \<Rightarrow> unit result"
  where
  "save_cache c ident ref rend media tree content w =
     and_then (save_cache_open c ident ref rend media tree w)
       (\<lambda>opened w1.
          if opened then save_cache_dump c ident ref rend media tree content w1
          else (Inr (), w1))"

section \<open>The external engines and the read path (prerendering.py lines 150--240)\<close>

definition DEFAULT_MEDIA_TYPE :: string where
  "DEFAULT_MEDIA_TYPE = ''application/xml''"

record 'b response =
  data :: 'b
  status :: nat
  mimetype :: string

text \<open>
  The collaborators that are not part of the repository, as parameters:
  \<^item> \<open>get_passage filepath ref end tree\<close>: \<^verbatim>\<open>Document(filepath).get_passage(...)\<close>
    serialised by \<^verbatim>\<open>ET.tostring\<close>;
  \<^item> \<open>fromstring\<close>: \<^verbatim>\<open>ET.fromstring\<close>, the XML parser;
  \<^item> \<open>transform media collection document\<close>: \<^verbatim>\<open>transformer.transform\<close>, whose response
    has a text body;
  \<^item> \<open>mapping\<close>: \<^verbatim>\<open>transformer.mapping\<close>, from media type to MIME type;
  \<^item> \<open>read_file\<close>: \<^verbatim>\<open>open(filepath).read()\<close> of a document of the corpus.
\<close>

record 'x engines =
  get_passage :: "string \<Rightarrow> string \<Rightarrow> string option \<Rightarrow> string \<Rightarrow> exn + string"
  fromstring :: "json \<Rightarrow> exn + 'x"
  transform :: "string \<Rightarrow> collection \<Rightarrow> 'x \<Rightarrow> exn + string response"
  mapping :: "(string \<times> string) list"
  read_file :: "string \<Rightarrow> exn + string"

definition get_xml_passage_as_string ::
  "'x engines \<Rightarrow> collection \<Rightarrow> string \<Rightarrow> string option \<Rightarrow> string \<Rightarrow> world \<Rightarrow> string result"
  where
  "get_xml_passage_as_string eng collection ref rend tree w =
     (get_passage eng (filepath collection) ref rend tree,
      emit (Extract (filepath collection) ref rend tree) w)"

text \<open>\<^verbatim>\<open>transformer.transform(media, collection, ET.fromstring(passage))\<close>.\<close>

definition transformed ::
  "'x engines \<Rightarrow> string \<Rightarrow> collection \<Rightarrow> json \<Rightarrow> exn + string response" where
  "transformed eng media collection passage =
     (case fromstring eng passage of
        Inl e \<Rightarrow> Inl e
      | Inr document \<Rightarrow> transform eng media collection document)"

definition get_transformed ::
  "'x engines \<Rightarrow> string \<Rightarrow> collection \<Rightarrow> json \<Rightarrow> world \<Rightarrow> string response result" where
  "get_transformed eng media collection passage w =
     (transformed eng media collection passage, emit (Transform media passage) w)"

text \<open>Python's \<^verbatim>\<open>str.lower\<close> on ASCII letters; other bytes are unchanged.\<close>

definition lower :: "string \<Rightarrow> string" where
  "lower s =
     map (\<lambda>ch. if 65 \<le> (of_char ch :: nat) \<and> (of_char ch :: nat) \<le> 90
               then char_of ((of_char ch :: nat) + 32) else ch) s"

text \<open>
  \<^verbatim>\<open>os.getenv("USE_DISK_CACHE", "true").lower() == "true"\<close>; the argument is the value
  of the environment variable, if it is set.
\<close>

definition use_disk_cache :: "string option \<Rightarrow> bool" where
  "use_disk_cache env = (lower (case env of None \<Rightarrow> ''true'' | Some v \<Rightarrow> v) = ''true'')"

definition get_xml_passage_or_cache ::
  "cache \<Rightarrow> string option \<Rightarrow> 'x engines \<Rightarrow> collection \<Rightarrow> string \<Rightarrow> string option \<Rightarrow> string \<Rightarrow>
   world \<Rightarrow> json result" where
  "get_xml_passage_or_cache c env eng collection ref rend tree w =
     (let generate = (\<lambda>w1.
            and_then (get_xml_passage_as_string eng collection ref rend tree w1)
              (\<lambda>passage w2. (Inr (JStr passage), w2)))
      in if use_disk_cache env
         then and_then (get_cache c collection ref rend ''application/xml'' tree w)
                (\<lambda>cached_content w1.
                   if truthy cached_content then (Inr cached_content, w1) else generate w1)
         else generate w)"

text \<open>
  The database rows the view reads (\<^verbatim>\<open>dapytains.app.database\<close>). A reference descriptor
  is read only through \<^verbatim>\<open>ref["identifier"]\<close>. \<open>references\<close> maps a tree to its descriptors
  and \<open>paths\<close> maps a tree to its valid reference strings; both are dicts, kept as
  association lists in insertion order.
\<close>

record reference =
  ref_identifier :: string

record navigation =
  nav_id :: nat
  collection_id :: nat
  references :: "(string \<times> reference list) list"
  paths :: "(string \<times> string list) list"

record database =
  collections :: "collection list"
  navigations :: "navigation list"

text \<open>
  What the view returns: \<^verbatim>\<open>msg_4xx(message)\<close> or \<^verbatim>\<open>msg_4xx(message, code=...)\<close> of the
  library, or a \<^verbatim>\<open>Response\<close>.
\<close>

datatype view_result = Msg4xx string "nat option" | Reply "json response"

text \<open>How lines 179--205 of \<^verbatim>\<open>custom_document_view\<close> end.\<close>

datatype resolution = Raise exn | Refuse view_result | Proceed collection string

definition str_opt :: "string option \<Rightarrow> string" where
  "str_opt s = (case s of None \<Rightarrow> ''None'' | Some v \<Rightarrow> v)"

text \<open>\<^verbatim>\<open>x not in xs\<close> for an \<^verbatim>\<open>Optional[str]\<close> and a collection of strings.\<close>

definition not_in :: "string option \<Rightarrow> string list \<Rightarrow> bool" where
  "not_in x xs = (case x of None \<Rightarrow> True | Some v \<Rightarrow> v \<notin> set xs)"

definition resolve_request ::
  "database \<Rightarrow> string option \<Rightarrow> string option \<Rightarrow> string option \<Rightarrow> string option \<Rightarrow>
   string option \<Rightarrow> resolution" where
  "resolve_request db resource ref start rend tree =
     (if \<not> truthy_str resource
      then Refuse (Msg4xx ''Resource parameter was not provided'' None)
      else case find (\<lambda>cl. Some (coll_identifier cl) = resource) (collections db) of
        None \<Rightarrow> Refuse (Msg4xx (''Unknown resource `'' @ str_opt resource @ ''`'') None)
      | Some collection \<Rightarrow>
         (case find (\<lambda>nv. collection_id nv = coll_id collection) (navigations db) of
            None \<Rightarrow>
              Refuse (Msg4xx (''The resource `'' @ str_opt resource
                               @ ''` does not support navigation'') None)
          | Some nav \<Rightarrow>
             (let tree' = py_or tree (default_tree collection);
                  given = (truthy_str ref \<or> truthy_str start \<or> truthy_str rend)
              in if given \<and> not_in tree' (map fst (references nav))
                 then Refuse (Msg4xx (''Unknown tree '' @ str_opt tree' @ '' for resource `''
                                      @ str_opt resource @ ''`'') None)
                 else if given \<and> truthy_str ref \<and> (truthy_str start \<or> truthy_str rend)
                 then Refuse (Msg4xx
                        ''You cannot provide a ref parameter as well as start or end''
                        (Some 400))
                 else if given \<and> \<not> truthy_str ref \<and>
                         ((truthy_str start \<and> \<not> truthy_str rend) \<or>
                          (truthy_str rend \<and> \<not> truthy_str start))
                 then Refuse (Msg4xx
                        ''Range is missing one of its parameters (start or end)''
                        (Some 400))
                 else case tree' of
                   None \<Rightarrow> Raise KeyError
                 | Some t \<Rightarrow>
                    (case map_of (paths nav) t of
                       None \<Rightarrow> Raise KeyError
                     | Some ps \<Rightarrow>
                        if truthy_str start \<and> truthy_str rend \<and>
                           (not_in start ps \<or> not_in rend ps)
                        then Refuse (Msg4xx (''Unknown reference '' @ str_opt start @ '' or ''
                                             @ str_opt rend @ '' in the requested tree.'')
                                       (Some 404))
                        else if truthy_str ref \<and> not_in ref ps
                        then Refuse (Msg4xx (''Unknown reference '' @ str_opt ref
                                             @ '' in the requested tree.'') (Some 404))
                        else Proceed collection t))))"

text \<open>\<^verbatim>\<open>transformer.mapping.get(media, media)\<close>.\<close>

definition mapping_get :: "(string \<times> string) list \<Rightarrow> string \<Rightarrow> string" where
  "mapping_get m media = (case map_of m media of None \<Rightarrow> media | Some v \<Rightarrow> v)"

text \<open>Lines 223--237: the passage is resolved, transformed, and the result saved.\<close>

definition transform_and_store ::
  "cache \<Rightarrow> string option \<Rightarrow> 'x engines \<Rightarrow> collection \<Rightarrow> string \<Rightarrow> string option \<Rightarrow> string \<Rightarrow>
   string \<Rightarrow> world \<Rightarrow> view_result result" where
  "transform_and_store c env eng collection r rend media tree w =
     and_then (get_xml_passage_or_cache c env eng collection r rend tree w)
       (\<lambda>passage w1.
          and_then (get_transformed eng media collection passage w1)
            (\<lambda>response w2.
               and_then
                 (if use_disk_cache env
                  then save_cache c (coll_identifier collection) r rend media tree
                         (data response) w2
                  else (Inr (), w2))
                 (\<lambda>u w3.
                    (Inr (Reply \<lparr>data = JStr (data response), status = status response,
                                 mimetype = mimetype response\<rparr>), w3))))"

text \<open>Lines 207--240. \<^verbatim>\<open>ref or start\<close> is a non-empty string once line 207 is passed.\<close>

definition serve_document ::
  "cache \<Rightarrow> string option \<Rightarrow> 'x engines \<Rightarrow> collection \<Rightarrow> string \<Rightarrow> string option \<Rightarrow>
   string option \<Rightarrow> string option \<Rightarrow> string option \<Rightarrow> world \<Rightarrow> view_result result" where
  "serve_document c env eng collection tree ref start rend media w =
     (if \<not> truthy_str ref \<and> \<not> truthy_str start
      then (case read_file eng (filepath collection) of
              Inl e \<Rightarrow> (Inl e, w)
            | Inr content \<Rightarrow>
                (Inr (Reply \<lparr>data = JStr content, status = 200,
                             mimetype = DEFAULT_MEDIA_TYPE\<rparr>), w))
      else case py_or ref start of
        None \<Rightarrow> (Inl AttributeError, w)
      | Some r \<Rightarrow>
         (let media' = str_opt (py_or media (Some DEFAULT_MEDIA_TYPE))
          in if media' \<noteq> DEFAULT_MEDIA_TYPE
             then if use_disk_cache env
                  then and_then (get_cache c collection r rend media' tree w)
                         (\<lambda>cached_content w1.
                            if truthy cached_content
                            then (Inr (Reply \<lparr>data = cached_content, status = 200,
                                               mimetype = mapping_get (mapping eng) media'\<rparr>),
                                  w1)
                            else transform_and_store c env eng collection r rend media' tree w1)
                  else transform_and_store c env eng collection r rend media' tree w
             else and_then (get_xml_passage_or_cache c env eng collection r rend tree w)
                    (\<lambda>passage w1.
                       (Inr (Reply \<lparr>data = passage, status = 200,
                                    mimetype = ''application/xml''\<rparr>), w1))))"

definition custom_document_view ::
  "cache \<Rightarrow> string option \<Rightarrow> 'x engines \<Rightarrow> database \<Rightarrow> string option \<Rightarrow> string option \<Rightarrow>
   string option \<Rightarrow> string option \<Rightarrow> string option \<Rightarrow> string option \<Rightarrow> world \<Rightarrow>
   view_result result" where
  "custom_document_view c env eng db resource ref start rend tree media w =
     (case resolve_request db resource ref start rend tree of
        Raise e \<Rightarrow> (Inl e, w)
      | Refuse r \<Rightarrow> (Inr r, w)
      | Proceed collection t \<Rightarrow>
          serve_document c env eng collection t ref start rend media w)"

section \<open>The batch generator (cli.py lines 79--175)\<close>

text \<open>Lines 126--141: the loop over the requested media types of one reference.\<close>

fun prerender_media_types ::
  "cache \<Rightarrow> 'x engines \<Rightarrow> collection \<Rightarrow> string \<Rightarrow> string \<Rightarrow> json \<Rightarrow> bool \<Rightarrow> string list \<Rightarrow>
   nat \<Rightarrow> world \<Rightarrow> nat result" where
  "prerender_media_types c eng collection tree ref_id base_content force_generate []
     rendered_content w = (Inr rendered_content, w)"
| "prerender_media_types c eng collection tree ref_id base_content force_generate
     (media_type # rest) rendered_content w =
     and_then (get_cache c collection ref_id None media_type tree w)
       (\<lambda>cached w1.
          if cached = JNull \<or> force_generate
          then and_then (get_transformed eng media_type collection base_content w1)
                 (\<lambda>response w2.
                    and_then
                      (save_cache c (coll_identifier collection) ref_id None media_type tree
                         (data response) w2)
                      (\<lambda>u w3.
                         prerender_media_types c eng collection tree ref_id base_content
                           force_generate rest (rendered_content + 1) w3))
          else prerender_media_types c eng collection tree ref_id base_content
                 force_generate rest rendered_content w1)"

text \<open>Lines 109--141: the body of the loop over the references of a tree.\<close>

definition prerender_reference ::
  "cache \<Rightarrow> 'x engines \<Rightarrow> collection \<Rightarrow> string \<Rightarrow> bool \<Rightarrow> string list \<Rightarrow> reference \<Rightarrow>
   nat \<Rightarrow> world \<Rightarrow> nat result" where
  "prerender_reference c eng collection tree force_generate media_types ref rendered_content w =
     (let ref_id = ref_identifier ref
      in and_then (get_cache c collection ref_id None DEFAULT_MEDIA_TYPE tree w)
           (\<lambda>base_content w1.
              if \<not> truthy base_content \<or> force_generate
              then and_then (get_xml_passage_as_string eng collection ref_id None tree w1)
                     (\<lambda>passage w2.
                        and_then
                          (save_cache c (coll_identifier collection) ref_id None
                             DEFAULT_MEDIA_TYPE tree passage w2)
                          (\<lambda>u w3.
                             prerender_media_types c eng collection tree ref_id (JStr passage)
                               force_generate media_types (rendered_content + 1) w3))
              else prerender_media_types c eng collection tree ref_id base_content
                     force_generate media_types rendered_content w1))"

fun prerender_references ::
  "cache \<Rightarrow> 'x engines \<Rightarrow> collection \<Rightarrow> string \<Rightarrow> bool \<Rightarrow> string list \<Rightarrow> reference list \<Rightarrow>
   nat \<Rightarrow> world \<Rightarrow> nat result" where
  "prerender_references c eng collection tree force_generate media_types []
     rendered_content w = (Inr rendered_content, w)"
| "prerender_references c eng collection tree force_generate media_types (ref # refs)
     rendered_content w =
     and_then
       (prerender_reference c eng collection tree force_generate media_types ref
          rendered_content w)
       (\<lambda>n w1.
          prerender_references c eng collection tree force_generate media_types refs n w1)"

text \<open>Line 107: the loop over \<^verbatim>\<open>navigation.references.items()\<close>.\<close>

fun prerender_trees ::
  "cache \<Rightarrow> 'x engines \<Rightarrow> collection \<Rightarrow> bool \<Rightarrow> string list \<Rightarrow>
   (string \<times> reference list) list \<Rightarrow> nat \<Rightarrow> world \<Rightarrow> nat result" where
  "prerender_trees c eng collection force_generate media_types [] rendered_content w =
     (Inr rendered_content, w)"
| "prerender_trees c eng collection force_generate media_types ((tree, refs) # rest)
     rendered_content w =
     and_then
       (prerender_references c eng collection tree force_generate media_types refs
          rendered_content w)
       (\<lambda>n w1. prerender_trees c eng collection force_generate media_types rest n w1)"

text \<open>
  \<^verbatim>\<open>_prerender_collection\<close>. \<^verbatim>\<open>Navigation.query.get\<close> and \<^verbatim>\<open>Collection.query.get\<close> return
  \<^verbatim>\<open>None\<close> for an unknown id; reading an attribute of \<^verbatim>\<open>None\<close> raises \<^verbatim>\<open>AttributeError\<close>,
  for the collection at the first lookup of a reference.
\<close>

definition prerender_collection ::
  "cache \<Rightarrow> 'x engines \<Rightarrow> database \<Rightarrow> nat \<times> string list \<times> bool \<Rightarrow> world \<Rightarrow> nat result" where
  "prerender_collection c eng db params w =
     (case params of (navigation_id, media_types, force_generate) \<Rightarrow>
        (case find (\<lambda>nv. nav_id nv = navigation_id) (navigations db) of
           None \<Rightarrow> (Inl AttributeError, w)
         | Some navigation \<Rightarrow>
            (case find (\<lambda>cl. coll_id cl = collection_id navigation) (collections db) of
               None \<Rightarrow>
                 if concat (map snd (references navigation)) = [] then (Inr 0, w)
                 else (Inl AttributeError, w)
             | Some collection \<Rightarrow>
                 prerender_trees c eng collection force_generate media_types
                   (references navigation) 0 w)))"

text \<open>
  The loop of the \<^verbatim>\<open>prerender\<close> command (lines 173--177): one work item per navigation id
  goes to \<^verbatim>\<open>_prerender_collection\<close> and what the workers return is added up in \<^verbatim>\<open>pages\<close>.
  The worker processes are modelled one after the other, in the order of the list of ids
  given; an exception in a worker ends the loop.
\<close>

fun prerender_all ::
  "cache \<Rightarrow> 'x engines \<Rightarrow> database \<Rightarrow> string list \<Rightarrow> bool \<Rightarrow> nat list \<Rightarrow> nat \<Rightarrow> world \<Rightarrow>
   nat result" where
  "prerender_all c eng db media_type force [] pages w = (Inr pages, w)"
| "prerender_all c eng db media_type force (navigation_id # ids) pages w =
     and_then (prerender_collection c eng db (navigation_id, media_type, force) w)
       (\<lambda>generated w1. prerender_all c eng db media_type force ids (pages + generated) w1)"

text \<open>
  The \<^verbatim>\<open>prerender\<close> command (lines 153--177). The ids of all navigations are read, and the
  pool is created with \<^verbatim>\<open>min(workers, len(navigations))\<close> processes:
  \<^verbatim>\<open>multiprocessing.Pool\<close> raises \<^verbatim>\<open>ValueError\<close> when that number is below one, which is so
  when the database holds no navigation or \<^verbatim>\<open>--workers\<close> is below one. Then the loop runs
  over all ids. The result is the number of pages the command reports; the progress bar
  itself is left out.
\<close>

definition prerender ::
  "cache \<Rightarrow> 'x engines \<Rightarrow> database \<Rightarrow> string list \<Rightarrow> int \<Rightarrow> bool \<Rightarrow> world \<Rightarrow> nat result" where
  "prerender c eng db media_type workers force w =
     (let navigation_ids = map nav_id (navigations db);
          num_workers = min workers (int (length navigation_ids))
      in if num_workers < 1 then (Inl ValueError, w)
         else prerender_all c eng db media_type force navigation_ids 0 w)"

section \<open>Counting calls, warmed caches, forced runs\<close>

fun is_extract :: "event \<Rightarrow> bool" where
  "is_extract (Extract fp ref rend tree) = True"
| "is_extract e = False"

fun is_transform :: "event \<Rightarrow> bool" where
  "is_transform (Transform media passage) = True"
| "is_transform e = False"

fun is_cache_read :: "event \<Rightarrow> bool" where
  "is_cache_read (CacheRead p) = True"
| "is_cache_read e = False"

definition extract_calls :: "world \<Rightarrow> nat" where
  "extract_calls w = length (filter is_extract (trace w))"

definition transform_calls :: "world \<Rightarrow> nat" where
  "transform_calls w = length (filter is_transform (trace w))"

text \<open>
  The cache holds an entry for a key when the lookup of the key does not raise and
  returns content that passes a test \<open>P\<close>.
\<close>

definition is_hit :: "json \<Rightarrow> bool" where
  "is_hit v = (v \<noteq> JNull)"

definition entry_holds ::
  "(json \<Rightarrow> bool) \<Rightarrow> cache \<Rightarrow> disk \<Rightarrow> collection \<Rightarrow> string \<Rightarrow> string \<Rightarrow> string \<Rightarrow> bool" where
  "entry_holds P c d collection tree ref_id media =
     (case fst (get_cache c collection ref_id None media tree \<lparr>disk = d, trace = []\<rparr>) of
        Inl e \<Rightarrow> False
      | Inr v \<Rightarrow> P v)"

text \<open>
  A warmed reference has a cached base-XML entry and a cached entry for every requested
  media type. A base-XML entry holds the serialisation of a passage: the one place that
  writes the key of the base passage (cli.py lines 116--122) stores what \<^verbatim>\<open>ET.tostring\<close>
  returns for the extracted element, which is never the empty string, so the content of a
  base-XML entry is not empty. The entry of a media type holds whatever text the
  transformer returned, the empty string included. A navigation is warmed when every
  reference of every tree of its document is; a navigation without references has
  nothing to warm. A corpus is fully warmed when every navigation is.
\<close>

definition warmed_reference ::
  "cache \<Rightarrow> disk \<Rightarrow> collection \<Rightarrow> string list \<Rightarrow> string \<Rightarrow> reference \<Rightarrow> bool"
  where
  "warmed_reference c d collection media_types tree ref =
     (entry_holds truthy c d collection tree (ref_identifier ref) DEFAULT_MEDIA_TYPE \<and>
      list_all (entry_holds is_hit c d collection tree (ref_identifier ref)) media_types)"

definition warmed_navigation ::
  "cache \<Rightarrow> disk \<Rightarrow> database \<Rightarrow> string list \<Rightarrow> navigation \<Rightarrow> bool" where
  "warmed_navigation c d db media_types nv =
     (case find (\<lambda>cl. coll_id cl = collection_id nv) (collections db) of
        None \<Rightarrow> concat (map snd (references nv)) = []
      | Some collection \<Rightarrow>
          list_all (\<lambda>(tree, refs). list_all (warmed_reference c d collection media_types tree) refs)
            (references nv))"

definition fully_warmed ::
  "cache \<Rightarrow> disk \<Rightarrow> database \<Rightarrow> string list \<Rightarrow> bool" where
  "fully_warmed c d db media_types =
     list_all (warmed_navigation c d db media_types) (navigations db)"

text \<open>The stored envelope of a key holds the empty string as content.\<close>

definition holds_empty ::
  "cache \<Rightarrow> disk \<Rightarrow> collection \<Rightarrow> string \<Rightarrow> string option \<Rightarrow> string \<Rightarrow> string \<Rightarrow> bool" where
  "holds_empty c d collection ref rend media tree =
     (case files d (get_cache_path c (coll_identifier collection) ref rend media tree) of
        Some (Json (JObj kvs)) \<Rightarrow> dict_get kvs ''content'' = JStr []
      | _ \<Rightarrow> False)"





text \<open>
  What a forced run is expected to do, written from the specification: for every
  reference, look the base entry up, extract, save; for every requested media type,
  look the entry up, transform the fresh passage, save. \<open>passage_text\<close> and
  \<open>transformed_text\<close> are what the engines produce where they succeed.
\<close>

definition saved_events :: "string \<Rightarrow> string \<Rightarrow> event list" where
  "saved_events path content = [CacheMkdir (parent path), CacheOpenW path, CacheWrite path content]"







section \<open>A small corpus\<close>

text \<open>
  The scenario of the specification: document \<open>ms001\<close>, tree \<open>default\<close>, references
  \<open>p1\<close> and \<open>p2\<close>, requested media \<open>html\<close>; the default cache instance; engines that
  wrap their input; an empty cache directory on which nothing fails.
\<close>

definition default_cache :: cache where
  "default_cache = \<lparr>ROOT = ''/tmp/prerender'', LEVELS = 3, CHARS_PER_LEVEL = 2\<rparr>"

definition ms001 :: collection where
  "ms001 = \<lparr>coll_id = 1, coll_identifier = ''ms001'', filepath = ''ms001.xml'',
            default_tree = Some ''default''\<rparr>"

definition nav001 :: navigation where
  "nav001 = \<lparr>nav_id = 7, collection_id = 1,
             references = [(''default'', [\<lparr>ref_identifier = ''p1''\<rparr>,
                                          \<lparr>ref_identifier = ''p2''\<rparr>])],
             paths = [(''default'', [''p1'', ''p2''])]\<rparr>"

definition corpus :: database where
  "corpus = \<lparr>collections = [ms001], navigations = [nav001]\<rparr>"

definition wrapping_engines :: "string engines" where
  "wrapping_engines =
     \<lparr>get_passage = (\<lambda>fp ref rend tree. Inr (''<p>'' @ ref @ ''</p>'')),
      fromstring = (\<lambda>v. case v of JStr s \<Rightarrow> Inr s | _ \<Rightarrow> Inl (EngineError ''TypeError'')),
      transform = (\<lambda>media cl doc.
         Inr \<lparr>data = ''<div>'' @ doc @ ''</div>'', status = 200, mimetype = media\<rparr>),
      mapping = [],
      read_file = (\<lambda>fp. Inr ''<TEI/>'')\<rparr>"

definition empty_disk :: disk where
  "empty_disk = \<lparr>files = Map.empty, mkdir_fails = (\<lambda>p. False), open_fails = (\<lambda>p. False),
                 write_fails = (\<lambda>p. False)\<rparr>"

definition fresh_world :: world where
  "fresh_world = \<lparr>disk = empty_disk, trace = []\<rparr>"

text \<open>Engines whose transformation produces the empty text.\<close>

definition blank_engines :: "string engines" where
  "blank_engines =
     wrapping_engines\<lparr>transform := (\<lambda>media cl doc.
        Inr \<lparr>data = [], status = 200, mimetype = media\<rparr>)\<rparr>"

text \<open>A corpus of one document with the single reference \<open>p1\<close>.\<close>

definition nav_single :: navigation where
  "nav_single = \<lparr>nav_id = 7, collection_id = 1,
                 references = [(''default'', [\<lparr>ref_identifier = ''p1''\<rparr>])],
                 paths = [(''default'', [''p1''])]\<rparr>"

definition corpus_single :: database where
  "corpus_single = \<lparr>collections = [ms001], navigations = [nav_single]\<rparr>"

text \<open>
  The paths of the four artifacts of the scenario, and a cache directory that holds
  exactly these four files, each the envelope of the same content.
\<close>

definition scenario_paths :: "string list" where
  "scenario_paths =
     [get_cache_path default_cache ''ms001'' ''p1'' None ''application/xml'' ''default'',
      get_cache_path default_cache ''ms001'' ''p1'' None ''html'' ''default'',
      get_cache_path default_cache ''ms001'' ''p2'' None ''application/xml'' ''default'',
      get_cache_path default_cache ''ms001'' ''p2'' None ''html'' ''default'']"

definition scenario_disk :: "string \<Rightarrow> disk" where
  "scenario_disk content =
     empty_disk\<lparr>files := (\<lambda>p. if p \<in> set scenario_paths
                               then Some (Json (envelope content)) else None)\<rparr>"

text \<open>
  A cache directory that already holds an \<open>html\<close> artifact for reference \<open>p1\<close> of
  \<open>ms001\<close>.
\<close>

definition stale_world :: world where
  "stale_world =
     fresh_world\<lparr>disk := empty_disk\<lparr>files :=
       [get_cache_path default_cache ''ms001'' ''p1'' None ''html'' ''default''
          \<mapsto> Json (envelope ''<div>old</div>'')]\<rparr>\<rparr>"

text \<open>The request for the \<open>html\<close> rendering of reference \<open>p1\<close> of \<open>ms001\<close>.\<close>

definition html_request :: "string engines \<Rightarrow> world \<Rightarrow> view_result result" where
  "html_request eng w =
     custom_document_view default_cache None eng corpus (Some ''ms001'') (Some ''p1'')
       None None None (Some ''html'') w"



text \<open>
  A warmed cache directory for reference \<open>p1\<close> whose \<open>html\<close> artifact is the empty string,
  as saved when the transformer returned the empty text.
\<close>

definition blank_html_world :: world where
  "blank_html_world =
     fresh_world\<lparr>disk := empty_disk\<lparr>files :=
       [get_cache_path default_cache ''ms001'' ''p1'' None ''application/xml'' ''default''
          \<mapsto> Json (envelope ''<p>p1</p>''),
        get_cache_path default_cache ''ms001'' ''p1'' None ''html'' ''default''
          \<mapsto> Json (envelope [])]\<rparr>\<rparr>"

section \<open>SHA-1 digests and the cache paths\<close>

lemma length_hex_word32: "length (hex_word32 w) = 8"
  by (simp add: hex_word32_def)

lemma length_sha1_hexdigest: "length (sha1_hexdigest s) = 40"
proof -
  obtain a b c d e where "sha1 (map of_char s) = (a, b, c, d, e)"
    by (metis prod_cases5)
  then show ?thesis
    by (simp add: sha1_hexdigest_def length_hex_word32)
qed

lemma nibble_bound: "unat ((w :: word32) AND 15) < 16"
proof -
  have "w AND 15 \<le> 15" by (rule word_and_le1)
  then have "unat (w AND 15) \<le> unat (15 :: word32)" by (simp add: word_le_nat_alt)
  then show ?thesis by simp
qed

lemma hexdigit_not_slash: "n < 16 \<Longrightarrow> hexdigit n \<noteq> CHR ''/''"
proof -
  assume "n < 16"
  then have "''0123456789abcdef'' ! n \<in> set ''0123456789abcdef''"
    by (intro nth_mem) simp
  then show ?thesis by (auto simp: hexdigit_def)
qed

lemma nibble_no_slash: "CHR ''/'' \<noteq> hexdigit (unat ((w :: word32) AND 15))"
  using hexdigit_not_slash [OF nibble_bound, of w] by simp

lemma hex_word32_no_slash: "CHR ''/'' \<notin> set (hex_word32 w)"
  by (simp add: hex_word32_def nibble_no_slash)

lemma sha1_hexdigest_no_slash: "CHR ''/'' \<notin> set (sha1_hexdigest s)"
proof -
  obtain a b c d e where "sha1 (map of_char s) = (a, b, c, d, e)"
    by (metis prod_cases5)
  then show ?thesis
    by (simp add: sha1_hexdigest_def hex_word32_no_slash)
qed

lemma length_safe_filename: "length (safe_filename s) = 8"
  by (simp add: safe_filename_def short_sha_def length_sha1_hexdigest)

lemma safe_filename_no_slash: "CHR ''/'' \<notin> set (safe_filename s)"
  using sha1_hexdigest_no_slash [of s] by (auto simp: safe_filename_def short_sha_def dest: in_set_takeD)


lemma join2_no_slash:
  "CHR ''/'' \<notin> set b \<Longrightarrow>
   join2 p b = (if p = [] \<or> last p = CHR ''/'' then p @ b else p @ ''/'' @ b)"
  by (cases b) (auto simp: join2_def)

lemma join2_similar:
  assumes "length p = length p'" and "(last p = CHR ''/'') = (last p' = CHR ''/'')"
    and "length b = length b'" and "CHR ''/'' \<notin> set b" and "CHR ''/'' \<notin> set b'"
  shows "length (join2 p b) = length (join2 p' b') \<and>
         (last (join2 p b) = CHR ''/'') = (last (join2 p' b') = CHR ''/'')"
proof -
  have e: "(p = []) = (p' = [])" "(b = []) = (b' = [])"
    using assms(1,3) by auto
  have l: "b \<noteq> [] \<Longrightarrow> last b \<noteq> CHR ''/''" "b' \<noteq> [] \<Longrightarrow> last b' \<noteq> CHR ''/''"
    using assms(4,5) last_in_set by metis+
  show ?thesis
    using assms e l by (auto simp: join2_no_slash)
qed

lemma foldl_join2_similar:
  assumes "list_all2 (\<lambda>b b'. length b = length b') bs bs'"
    and "\<forall>b \<in> set bs. CHR ''/'' \<notin> set b" and "\<forall>b \<in> set bs'. CHR ''/'' \<notin> set b"
    and "length p = length p'" and "(last p = CHR ''/'') = (last p' = CHR ''/'')"
  shows "length (foldl join2 p bs) = length (foldl join2 p' bs')"
  using assms
proof (induction bs bs' arbitrary: p p' rule: list_all2_induct)
  case Nil
  then show ?case by simp
next
  case (Cons b bs b' bs')
  have "length (join2 p b) = length (join2 p' b') \<and>
        (last (join2 p b) = CHR ''/'') = (last (join2 p' b') = CHR ''/'')"
    using Cons.prems Cons.hyps(1) by (intro join2_similar) auto
  then show ?case
    using Cons.IH [of "join2 p b" "join2 p' b'"] Cons.prems by simp
qed

lemma foldl_join2_hd:
  assumes "\<forall>b \<in> set bs. CHR ''/'' \<notin> set b" and "p = [] \<or> hd p \<noteq> CHR ''/''"
  shows "foldl join2 p bs = [] \<or> hd (foldl join2 p bs) \<noteq> CHR ''/''"
  using assms
proof (induction bs arbitrary: p)
  case Nil
  then show ?case by simp
next
  case (Cons b bs)
  have "join2 p b = [] \<or> hd (join2 p b) \<noteq> CHR ''/''"
    using Cons.prems by (cases b; cases p) (auto simp: join2_no_slash)
  then show ?case using Cons.IH [of "join2 p b"] Cons.prems by simp
qed


lemma hd_not_in: "x \<notin> set xs \<Longrightarrow> xs \<noteq> [] \<Longrightarrow> hd xs \<noteq> x"
  by (cases xs) auto

lemma last_not_in: "x \<notin> set xs \<Longrightarrow> xs \<noteq> [] \<Longrightarrow> last xs \<noteq> x"
  by (induction xs) auto

lemma join2_hd:
  "b = [] \<or> hd b \<noteq> CHR ''/'' \<Longrightarrow>
   join2 p b = (if p = [] \<or> last p = CHR ''/'' then p @ b else p @ ''/'' @ b)"
  by (auto simp: join2_def)

lemma subfolders_of_length:
  assumes "length d = length d'" and "CHR ''/'' \<notin> set d" and "CHR ''/'' \<notin> set d'"
  shows "length (subfolders_of c d) = length (subfolders_of c d')"
proof -
  define k where "k = CHARS_PER_LEVEL c"
  define ps where "ps = map (\<lambda>i. take k (drop (i * k) d)) [0..<LEVELS c]"
  define ps' where "ps' = map (\<lambda>i. take k (drop (i * k) d')) [0..<LEVELS c]"
  have same: "list_all2 (\<lambda>b b'. length b = length b') (ps @ [d]) (ps' @ [d'])"
    using assms(1) by (auto simp: ps_def ps'_def list_all2_conv_all_nth nth_append)
  have free: "\<forall>b \<in> set (ps @ [d]). CHR ''/'' \<notin> set b"
    using assms(2) by (auto simp: ps_def dest!: in_set_takeD in_set_dropD)
  have free': "\<forall>b \<in> set (ps' @ [d']). CHR ''/'' \<notin> set b"
    using assms(3) by (auto simp: ps'_def dest!: in_set_takeD in_set_dropD)
  obtain x xs where x: "ps @ [d] = x # xs" by (cases "ps @ [d]") auto
  obtain x' xs' where x': "ps' @ [d'] = x' # xs'" by (cases "ps' @ [d']") auto
  have len: "length x = length x'" and rest: "list_all2 (\<lambda>b b'. length b = length b') xs xs'"
    using same unfolding x x' by auto
  have fx: "CHR ''/'' \<notin> set x" "\<forall>b \<in> set xs. CHR ''/'' \<notin> set b"
    using free unfolding x by auto
  have fx': "CHR ''/'' \<notin> set x'" "\<forall>b \<in> set xs'. CHR ''/'' \<notin> set b"
    using free' unfolding x' by auto
  have lst: "(last x = CHR ''/'') = (last x' = CHR ''/'')"
  proof (cases "x = []")
    case True
    then show ?thesis using len by simp
  next
    case False
    then have "x' \<noteq> []" using len by auto
    then show ?thesis using False fx(1) fx'(1) last_in_set by metis
  qed
  have "length (foldl join2 x xs) = length (foldl join2 x' xs')"
    using rest fx(2) fx'(2) len lst by (rule foldl_join2_similar)
  then show ?thesis
    using x x' by (simp add: subfolders_of_def os_path_join_def ps_def ps'_def k_def)
qed

lemma subfolders_of_shape:
  assumes "d \<noteq> []" and "CHR ''/'' \<notin> set d"
  shows "(\<exists>P. subfolders_of c d = P @ d) \<and> hd (subfolders_of c d) \<noteq> CHR ''/''"
proof -
  define k where "k = CHARS_PER_LEVEL c"
  define ps where "ps = map (\<lambda>i. take k (drop (i * k) d)) [0..<LEVELS c]"
  have free: "\<forall>b \<in> set (ps @ [d]). CHR ''/'' \<notin> set b"
    using assms(2) by (auto simp: ps_def dest!: in_set_takeD in_set_dropD)
  have sub: "subfolders_of c d = foldl join2 (hd (ps @ [d])) (tl (ps @ [d]))"
    by (simp add: subfolders_of_def os_path_join_def ps_def k_def)
  have hdd: "hd d \<noteq> CHR ''/''"
    using assms by (cases d) auto
  have suffix: "\<exists>P. subfolders_of c d = P @ d"
  proof (cases ps)
    case Nil
    then show ?thesis using sub by simp
  next
    case (Cons x xs)
    then have "subfolders_of c d = join2 (foldl join2 x xs) d"
      using sub by simp
    then show ?thesis
      using hdd by (auto simp: join2_hd)
  qed
  obtain x xs where x: "ps @ [d] = x # xs" by (cases "ps @ [d]") auto
  have "x = [] \<or> hd x \<noteq> CHR ''/''" "\<forall>b \<in> set xs. CHR ''/'' \<notin> set b"
    using free unfolding x by (auto dest: hd_not_in)
  then have "foldl join2 x xs = [] \<or> hd (foldl join2 x xs) \<noteq> CHR ''/''"
    using foldl_join2_hd by blast
  moreover have "subfolders_of c d \<noteq> []"
    using suffix assms(1) by auto
  ultimately show ?thesis
    using suffix sub x by simp
qed

lemma get_cache_path_parts:
  "get_cache_path c i r e m t =
     (if ROOT c = [] \<or> last (ROOT c) = CHR ''/'' then ROOT c else ROOT c @ ''/'')
     @ subfolders_of c (sha1_hexdigest i) @ ''/''
     @ safe_filename t @ ''__'' @ safe_filename r @ ''__''
     @ concat (map (\<lambda>x. x @ ''__'') (end_part e)) @ safe_filename m @ ''.prerender''"
proof -
  define d where "d = sha1_hexdigest i"
  define sub where "sub = subfolders_of c d"
  define fn where "fn = str_join ''__'' ([safe_filename t, safe_filename r] @ end_part e
                                         @ [safe_filename m]) @ ''.prerender''"
  have d: "d \<noteq> []" "CHR ''/'' \<notin> set d"
    using length_sha1_hexdigest [of i] sha1_hexdigest_no_slash [of i] by (auto simp: d_def)
  from subfolders_of_shape [OF d, of c] obtain P
    where P: "sub = P @ d" and hsub: "hd sub \<noteq> CHR ''/''"
    by (auto simp: sub_def)
  have lsub: "sub \<noteq> []" "last sub \<noteq> CHR ''/''"
    using P d last_not_in [of "CHR ''/''" d] by auto
  have t8: "safe_filename t \<noteq> []" "hd (safe_filename t) \<noteq> CHR ''/''"
    using length_safe_filename [of t] safe_filename_no_slash [of t]
    by (auto dest: hd_not_in)
  have fn: "fn = safe_filename t @ ''__'' @ safe_filename r @ ''__''
              @ concat (map (\<lambda>x. x @ ''__'') (end_part e)) @ safe_filename m @ ''.prerender''"
    by (auto simp: fn_def end_part_def split: option.splits)
  have hfn: "hd fn \<noteq> CHR ''/''"
    using t8 by (simp add: fn)
  have base: "join2 (ROOT c) sub =
      (if ROOT c = [] \<or> last (ROOT c) = CHR ''/'' then ROOT c else ROOT c @ ''/'') @ sub"
    using hsub by (simp add: join2_hd)
  have "join2 (join2 (ROOT c) sub) fn = join2 (ROOT c) sub @ ''/'' @ fn"
    using hfn lsub by (simp add: join2_hd [of fn] base)
  then have "get_cache_path c i r e m t =
      (if ROOT c = [] \<or> last (ROOT c) = CHR ''/'' then ROOT c else ROOT c @ ''/'')
      @ sub @ ''/'' @ fn"
    using base
    by (simp add: get_cache_path_def path_div_def sha_subfolders_def sub_def d_def fn_def
          Let_def)
  then show ?thesis
    by (simp add: fn sub_def d_def)
qed


lemma end_part_cases:
  "end_part e = [] \<or> (\<exists>x. end_part e = [x] \<and> length x = 8)"
  by (auto simp: end_part_def length_safe_filename split: option.splits)

lemma tail_eq:
  assumes "concat (map (\<lambda>x. x @ ''__'') E) @ m @ ''.prerender''
           = concat (map (\<lambda>x. x @ ''__'') E') @ m' @ ''.prerender''"
    and "E = [] \<or> (\<exists>x. E = [x] \<and> length x = 8)"
    and "E' = [] \<or> (\<exists>x. E' = [x] \<and> length x = 8)"
    and "length m = 8" and "length m' = 8"
  shows "E = E' \<and> m = m'"
proof -
  have len: "length (concat (map (\<lambda>x. x @ ''__'') E) @ m @ ''.prerender'')
           = length (concat (map (\<lambda>x. x @ ''__'') E') @ m' @ ''.prerender'')"
    using arg_cong [OF assms(1), of length] .
  consider "E = []" "E' = []"
    | x x' where "E = [x]" "E' = [x']" "length x = 8" "length x' = 8"
    | x where "E = []" "E' = [x]" "length x = 8"
    | x where "E = [x]" "E' = []" "length x = 8"
    using assms(2,3) by auto
  then show ?thesis
  proof cases
    case 1
    then show ?thesis using assms(1) by simp
  next
    case 2
    then show ?thesis using assms(1,4,5) by simp
  next
    case 3
    then show ?thesis using len assms(4,5) by simp
  next
    case 4
    then show ?thesis using len assms(4,5) by simp
  qed
qed

text \<open>
  C7, as amended. \<open>get_cache_path\<close> is a function of its five inputs and the cache
  configuration, and two inputs are given the same path exactly when the SHA-1 digests of
  the document identifiers are equal, the 8-character digests of tree, reference and media
  type are equal, and the range ends contribute the same file-name part: both are absent
  or empty, or both are non-empty with equal 8-character digests.
\<close>

theorem get_cache_path_eq_iff:
  "(get_cache_path c i r e m t = get_cache_path c i' r' e' m' t') =
   (sha1_hexdigest i = sha1_hexdigest i' \<and> safe_filename t = safe_filename t' \<and>
    safe_filename r = safe_filename r' \<and> end_part e = end_part e' \<and>
    safe_filename m = safe_filename m')"
proof
  assume "sha1_hexdigest i = sha1_hexdigest i' \<and> safe_filename t = safe_filename t' \<and>
    safe_filename r = safe_filename r' \<and> end_part e = end_part e' \<and>
    safe_filename m = safe_filename m'"
  then show "get_cache_path c i r e m t = get_cache_path c i' r' e' m' t'"
    by (simp add: get_cache_path_def sha_subfolders_def)
next
  assume eq: "get_cache_path c i r e m t = get_cache_path c i' r' e' m' t'"
  define d where "d = sha1_hexdigest i"
  define d' where "d' = sha1_hexdigest i'"
  have d: "length d = 40" "CHR ''/'' \<notin> set d" "d \<noteq> []"
    using length_sha1_hexdigest [of i] sha1_hexdigest_no_slash [of i] by (auto simp: d_def)
  have d': "length d' = 40" "CHR ''/'' \<notin> set d'" "d' \<noteq> []"
    using length_sha1_hexdigest [of i'] sha1_hexdigest_no_slash [of i']
    by (auto simp: d'_def)
  have len: "length (subfolders_of c d) = length (subfolders_of c d')"
    using d d' by (intro subfolders_of_length) auto
  from eq have "subfolders_of c d @ ''/'' @ safe_filename t @ ''__'' @ safe_filename r @ ''__''
        @ concat (map (\<lambda>x. x @ ''__'') (end_part e)) @ safe_filename m @ ''.prerender''
      = subfolders_of c d' @ ''/'' @ safe_filename t' @ ''__'' @ safe_filename r' @ ''__''
        @ concat (map (\<lambda>x. x @ ''__'') (end_part e')) @ safe_filename m' @ ''.prerender''"
    unfolding get_cache_path_parts d_def d'_def by simp
  with len have sub: "subfolders_of c d = subfolders_of c d'"
    and rest: "safe_filename t @ ''__'' @ safe_filename r @ ''__''
        @ concat (map (\<lambda>x. x @ ''__'') (end_part e)) @ safe_filename m @ ''.prerender''
      = safe_filename t' @ ''__'' @ safe_filename r' @ ''__''
        @ concat (map (\<lambda>x. x @ ''__'') (end_part e')) @ safe_filename m' @ ''.prerender''"
    by auto
  obtain P P' where "subfolders_of c d = P @ d" "subfolders_of c d' = P' @ d'"
    using subfolders_of_shape [OF d(3) d(2), of c] subfolders_of_shape [OF d'(3) d'(2), of c]
    by auto
  with sub d(1) d'(1) have dd: "d = d'" by auto
  from rest have tt: "safe_filename t = safe_filename t'"
    and rest2: "safe_filename r @ ''__''
        @ concat (map (\<lambda>x. x @ ''__'') (end_part e)) @ safe_filename m @ ''.prerender''
      = safe_filename r' @ ''__''
        @ concat (map (\<lambda>x. x @ ''__'') (end_part e')) @ safe_filename m' @ ''.prerender''"
    using length_safe_filename [of t] length_safe_filename [of t'] by auto
  from rest2 have rr: "safe_filename r = safe_filename r'"
    and rest3: "concat (map (\<lambda>x. x @ ''__'') (end_part e)) @ safe_filename m @ ''.prerender''
      = concat (map (\<lambda>x. x @ ''__'') (end_part e')) @ safe_filename m' @ ''.prerender''"
    using length_safe_filename [of r] length_safe_filename [of r'] by auto
  have "end_part e = end_part e' \<and> safe_filename m = safe_filename m'"
    using rest3 end_part_cases [of e] end_part_cases [of e']
      length_safe_filename [of m] length_safe_filename [of m']
    by (rule tail_eq)
  with dd tt rr show "sha1_hexdigest i = sha1_hexdigest i' \<and>
    safe_filename t = safe_filename t' \<and> safe_filename r = safe_filename r' \<and>
    end_part e = end_part e' \<and> safe_filename m = safe_filename m'"
    by (simp add: d_def d'_def)
qed

text \<open>
  C7 as stated fails: an absent range end and an empty one differ in exactly one field of
  the input and are given the same path, with no digest of the range end taken at all
  (\<^verbatim>\<open>if end:\<close> skips both).
\<close>

theorem get_cache_path_empty_end_counterexample:
  "get_cache_path default_cache ''ms001'' ''p1'' None ''html'' ''default''
   = get_cache_path default_cache ''ms001'' ''p1'' (Some []) ''html'' ''default''
   \<and> (None :: string option) \<noteq> Some []
   \<and> end_part None = [] \<and> end_part (Some []) = []"
  by (simp add: get_cache_path_def end_part_def)


text \<open>
  The digests of the scenario's references, and the FIPS 180-4 test vector, computed by
  the simplifier; \<^verbatim>\<open>hashlib\<close> gives the same values.
\<close>

lemma replicate_numeral_Cons: "replicate (numeral k) x = x # replicate (pred_numeral k) x"
  by (simp add: numeral_eq_Suc)

lemmas sha1_eval =
  sha1_hexdigest_def sha1_def sha1_block_def sha1_pad_def block_words_def be_word_def
  upt_conv_Cons replicate_numeral_Cons schedule_def schedule_step_def rotl32_def
  sha1_f_def sha1_k_def hex_word32_def hexdigit_def

lemma sha1_hexdigest_abc:
  "sha1_hexdigest ''abc'' = ''a9993e364706816aba3e25717850c26c9cd0d89d''"
  by (simp add: sha1_eval)

lemma sha1_hexdigest_p1:
  "sha1_hexdigest ''p1'' = ''b78f576611ec06f96af3ca654c22172a5d746c40''"
  by (simp add: sha1_eval)

lemma sha1_hexdigest_p2:
  "sha1_hexdigest ''p2'' = ''c5fd961c9f737a955a308050062e7a2c34ee67c3''"
  by (simp add: sha1_eval)

lemma sha1_hexdigest_ms001:
  "sha1_hexdigest ''ms001'' = ''6d4bf330c5023c7eb7613471a8f3e466633289e9''"
  by (simp add: sha1_eval)

lemma sha1_hexdigest_default:
  "sha1_hexdigest ''default'' = ''7505d64a54e061b7acd54ccd58b49dc43500b635''"
  by (simp add: sha1_eval)

lemma sha1_hexdigest_html:
  "sha1_hexdigest ''html'' = ''950a39b6c2934bb72f2def76c71e88e9c035385f''"
  by (simp add: sha1_eval)

text \<open>The path of the \<open>html\<close> artifact of reference \<open>p1\<close> of \<open>ms001\<close> in the default cache.\<close>

lemma get_cache_path_example:
  "get_cache_path default_cache ''ms001'' ''p1'' None ''html'' ''default''
   = ''/tmp/prerender/6d/4b/f3/6d4bf330c5023c7eb7613471a8f3e466633289e9/7505d64a__b78f5766__950a39b6.prerender''"
  by (simp add: get_cache_path_def path_div_def sha_subfolders_def subfolders_of_def
        os_path_join_def join2_def safe_filename_def short_sha_def end_part_def
        default_cache_def upt_conv_Cons sha1_hexdigest_ms001 sha1_hexdigest_default
        sha1_hexdigest_html sha1_hexdigest_p1)

lemma sha1_hexdigest_xml:
  "sha1_hexdigest ''application/xml'' = ''047f35c768cbfb7e69bd1c667000297a18d9a0cf''"
  by (simp add: sha1_eval)

text \<open>The path of the base-XML entry of the same reference, and that the two differ.\<close>

lemma get_cache_path_base_example:
  "get_cache_path default_cache ''ms001'' ''p1'' None ''application/xml'' ''default''
   = ''/tmp/prerender/6d/4b/f3/6d4bf330c5023c7eb7613471a8f3e466633289e9/7505d64a__b78f5766__047f35c7.prerender''"
  by (simp add: get_cache_path_def path_div_def sha_subfolders_def subfolders_of_def
        os_path_join_def join2_def safe_filename_def short_sha_def end_part_def
        default_cache_def upt_conv_Cons sha1_hexdigest_ms001 sha1_hexdigest_default
        sha1_hexdigest_xml sha1_hexdigest_p1)

lemma base_path_is_not_html_path:
  "get_cache_path default_cache ''ms001'' ''p1'' None ''application/xml'' ''default''
   \<noteq> get_cache_path default_cache ''ms001'' ''p1'' None ''html'' ''default''"
  "get_cache_path default_cache ''ms001'' ''p1'' None ''html'' ''default''
   \<noteq> get_cache_path default_cache ''ms001'' ''p1'' None ''application/xml'' ''default''"
  by (simp_all add: get_cache_path_example get_cache_path_base_example)

theorem get_cache_path_eq_iff_witness:
  "get_cache_path default_cache ''ms001'' ''p1'' None ''html'' ''default''
   \<noteq> get_cache_path default_cache ''ms001'' ''p2'' None ''html'' ''default''
   \<and> get_cache_path default_cache ''ms001'' ''p1'' (Some ''p2'') ''html'' ''default''
   \<noteq> get_cache_path default_cache ''ms001'' ''p1'' None ''html'' ''default''"
  using get_cache_path_eq_iff [of default_cache "''ms001''" "''p1''" None "''html''"
      "''default''" "''ms001''" "''p2''" None "''html''" "''default''"]
    get_cache_path_eq_iff [of default_cache "''ms001''" "''p1''" "Some ''p2''" "''html''"
      "''default''" "''ms001''" "''p1''" None "''html''" "''default''"]
  by (simp add: safe_filename_def short_sha_def sha1_hexdigest_p1 sha1_hexdigest_p2
        end_part_def)

section \<open>The cache store\<close>

lemma use_disk_cache_default: "use_disk_cache None"
  by (simp add: use_disk_cache_def lower_def)

lemma get_cache_miss:
  "files (disk w) (get_cache_path c (coll_identifier cl) r e m t) = None \<Longrightarrow>
   get_cache c cl r e m t w
   = (Inr JNull, emit (CacheRead (get_cache_path c (coll_identifier cl) r e m t)) w)"
  by (simp add: get_cache_def Let_def)

lemma get_cache_object:
  "files (disk w) (get_cache_path c (coll_identifier cl) r e m t) = Some (Json (JObj kvs)) \<Longrightarrow>
   get_cache c cl r e m t w
   = (Inr (dict_get kvs ''content''),
      emit (CacheRead (get_cache_path c (coll_identifier cl) r e m t)) w)"
  by (simp add: get_cache_def Let_def)

lemma dict_get_envelope: "dict_get [(''content'', v)] ''content'' = v"
  by (simp add: dict_get_def)

lemma get_cache_envelope:
  "files (disk w) (get_cache_path c (coll_identifier cl) r e m t)
     = Some (Json (envelope content)) \<Longrightarrow>
   get_cache c cl r e m t w
   = (Inr (JStr content), emit (CacheRead (get_cache_path c (coll_identifier cl) r e m t)) w)"
  by (simp add: get_cache_object envelope_def dict_get_envelope)

lemma save_cache_ok:
  assumes "\<not> mkdir_fails (disk w) (parent (get_cache_path c i r e m t))"
    and "\<not> open_fails (disk w) (get_cache_path c i r e m t)"
    and "\<not> write_fails (disk w) (get_cache_path c i r e m t)"
  shows "save_cache c i r e m t content w
    = (Inr (), w\<lparr>disk := (disk w)\<lparr>files := (files (disk w))
                       (get_cache_path c i r e m t \<mapsto> Json (envelope content))\<rparr>,
                  trace := trace w @ saved_events (get_cache_path c i r e m t) content\<rparr>)"
  using assms
  by (simp add: save_cache_def save_cache_open_def save_cache_dump_def and_then_def Let_def
        emit_def set_file_def saved_events_def)

lemma ms001_fields:
  "coll_identifier ms001 = ''ms001''" "filepath ms001 = ''ms001.xml''" "coll_id ms001 = 1"
  "default_tree ms001 = Some ''default''"
  by (simp_all add: ms001_def)

lemma resolve_p1:
  "resolve_request corpus (Some ''ms001'') (Some ''p1'') None None None
   = Proceed ms001 ''default''"
  by (simp add: resolve_request_def corpus_def ms001_def nav001_def truthy_str_def py_or_def
        not_in_def)

text \<open>
  C5 (save_cache never raises to its caller; failures of directory creation and of the
  write are swallowed). The code calls \<^verbatim>\<open>path.parent.mkdir\<close> before its \<^verbatim>\<open>try\<close>: on a
  cache directory in which the shard directories cannot be created, saving the \<open>html\<close>
  artifact of reference \<open>p1\<close> of \<open>ms001\<close> ends with \<^verbatim>\<open>OSError\<close> raised to the caller.
\<close>

theorem save_cache_mkdir_failure_escapes:
  "fst (save_cache default_cache ''ms001'' ''p1'' None ''html'' ''default'' ''<div>x</div>''
          (fresh_world\<lparr>disk := empty_disk\<lparr>mkdir_fails := (\<lambda>p. True)\<rparr>\<rparr>))
   = Inl OSError"
  by (simp add: save_cache_def save_cache_open_def and_then_def Let_def)

text \<open>
  The failures inside the \<^verbatim>\<open>try\<close> are swallowed: save_cache raises exactly when the
  directory cannot be created.
\<close>

lemma save_cache_raises_only_on_mkdir:
  "fst (save_cache c i r e m t content w)
   = (if mkdir_fails (disk w) (parent (get_cache_path c i r e m t)) then Inl OSError
      else Inr ())"
  by (simp add: save_cache_def save_cache_open_def save_cache_dump_def and_then_def Let_def)

text \<open>
  C6 (get_cache returns a miss for every absent, unreadable or malformed file and never
  raises). The code catches \<^verbatim>\<open>JSONDecodeError\<close> and \<^verbatim>\<open>IOError\<close> only. When the file at the
  derived path holds valid JSON that is not an object, here the text \<^verbatim>\<open>[]\<close>, the call
  \<^verbatim>\<open>data.get\<close> raises \<^verbatim>\<open>AttributeError\<close>; when its bytes are not UTF-8, reading it raises
  \<^verbatim>\<open>UnicodeDecodeError\<close>. Both leave get_cache.
\<close>

theorem get_cache_non_object_raises:
  "fst (get_cache default_cache ms001 ''p1'' None ''html'' ''default''
          (fresh_world\<lparr>disk := empty_disk\<lparr>files :=
             [get_cache_path default_cache ''ms001'' ''p1'' None ''html'' ''default''
                \<mapsto> Json (JArr [])]\<rparr>\<rparr>))
   = Inl AttributeError
   \<and> fst (get_cache default_cache ms001 ''p1'' None ''html'' ''default''
          (fresh_world\<lparr>disk := empty_disk\<lparr>files :=
             [get_cache_path default_cache ''ms001'' ''p1'' None ''html'' ''default''
                \<mapsto> Undecodable]\<rparr>\<rparr>))
   = Inl UnicodeDecodeError"
  by (simp add: get_cache_def ms001_def Let_def)

text \<open>
  C9, as amended. save_cache writes in place. Its file operations are the creation of the
  parent directory, the open of the final path for writing and the write into it: there
  is no temporary file and no rename, and no file other than the final path changes. The
  open truncates the final path: from then until the dump is complete the file there is
  truncated or partial, whatever it held before, and a lookup of the key finds no content
  (a miss). When nothing fails the final path ends holding the complete new envelope,
  which a lookup returns; when the write fails the file stays truncated, the previous
  content is not restored.
\<close>

theorem save_cache_writes_in_place:
  "(\<exists>es. trace (snd (save_cache c (coll_identifier cl) ref rend media tree content w))
           = trace w @ es
         \<and> set es \<subseteq> {CacheMkdir (parent (get_cache_path c (coll_identifier cl) ref rend media tree)),
                      CacheOpenW (get_cache_path c (coll_identifier cl) ref rend media tree),
                      CacheWrite (get_cache_path c (coll_identifier cl) ref rend media tree)
                        content})
   \<and> (\<forall>q. q \<noteq> get_cache_path c (coll_identifier cl) ref rend media tree \<longrightarrow>
          files (disk (snd (save_cache c (coll_identifier cl) ref rend media tree content w))) q
          = files (disk w) q)
   \<and> (\<not> mkdir_fails (disk w)
           (parent (get_cache_path c (coll_identifier cl) ref rend media tree)) \<and>
       \<not> open_fails (disk w) (get_cache_path c (coll_identifier cl) ref rend media tree) \<longrightarrow>
        fst (save_cache_open c (coll_identifier cl) ref rend media tree w) = Inr True
        \<and> files (disk (snd (save_cache_open c (coll_identifier cl) ref rend media tree w)))
            (get_cache_path c (coll_identifier cl) ref rend media tree)
          = Some NotJson
        \<and> fst (get_cache c cl ref rend media tree
                 (snd (save_cache_open c (coll_identifier cl) ref rend media tree w)))
          = Inr JNull
        \<and> (if write_fails (disk w) (get_cache_path c (coll_identifier cl) ref rend media tree)
           then files (disk (snd (save_cache c (coll_identifier cl) ref rend media tree
                                    content w)))
                  (get_cache_path c (coll_identifier cl) ref rend media tree)
                = Some NotJson
           else files (disk (snd (save_cache c (coll_identifier cl) ref rend media tree
                                    content w)))
                  (get_cache_path c (coll_identifier cl) ref rend media tree)
                = Some (Json (envelope content))
              \<and> fst (get_cache c cl ref rend media tree
                       (snd (save_cache c (coll_identifier cl) ref rend media tree
                               content w)))
                = Inr (JStr content)))"
proof (intro conjI allI impI)
  define p where "p = get_cache_path c (coll_identifier cl) ref rend media tree"
  have "\<exists>es. trace (snd (save_cache c (coll_identifier cl) ref rend media tree content w))
           = trace w @ es
         \<and> set es \<subseteq> {CacheMkdir (parent p), CacheOpenW p, CacheWrite p content}"
  proof (cases "mkdir_fails (disk w) (parent p) \<or> open_fails (disk w) p")
    case True
    then have "trace (snd (save_cache c (coll_identifier cl) ref rend media tree content w))
               = trace w @ [CacheMkdir (parent p)]"
      by (auto simp add: save_cache_def save_cache_open_def and_then_def Let_def emit_def
            p_def)
    then show ?thesis by auto
  next
    case False
    show ?thesis
    proof (cases "write_fails (disk w) p")
      case True
      with False
      have "trace (snd (save_cache c (coll_identifier cl) ref rend media tree content w))
               = trace w @ [CacheMkdir (parent p), CacheOpenW p]"
        by (simp add: save_cache_def save_cache_open_def save_cache_dump_def and_then_def
              Let_def emit_def set_file_def p_def)
      then show ?thesis by auto
    next
      case nw: False
      with False
      have "trace (snd (save_cache c (coll_identifier cl) ref rend media tree content w))
               = trace w @ [CacheMkdir (parent p), CacheOpenW p, CacheWrite p content]"
        by (simp add: save_cache_def save_cache_open_def save_cache_dump_def and_then_def
              Let_def emit_def set_file_def p_def)
      then show ?thesis by auto
    qed
  qed
  then show "\<exists>es. trace (snd (save_cache c (coll_identifier cl) ref rend media tree content w))
           = trace w @ es
         \<and> set es \<subseteq> {CacheMkdir (parent (get_cache_path c (coll_identifier cl) ref rend media tree)),
                      CacheOpenW (get_cache_path c (coll_identifier cl) ref rend media tree),
                      CacheWrite (get_cache_path c (coll_identifier cl) ref rend media tree)
                        content}"
    by (simp add: p_def)
next
  fix q
  assume "q \<noteq> get_cache_path c (coll_identifier cl) ref rend media tree"
  then show "files (disk (snd (save_cache c (coll_identifier cl) ref rend media tree content w))) q
          = files (disk w) q"
    by (simp add: save_cache_def save_cache_open_def save_cache_dump_def and_then_def
          Let_def emit_def set_file_def)
next
  assume a: "\<not> mkdir_fails (disk w)
           (parent (get_cache_path c (coll_identifier cl) ref rend media tree)) \<and>
       \<not> open_fails (disk w) (get_cache_path c (coll_identifier cl) ref rend media tree)"
  then show "fst (save_cache_open c (coll_identifier cl) ref rend media tree w) = Inr True"
    by (simp add: save_cache_open_def Let_def)
  from a show "files (disk (snd (save_cache_open c (coll_identifier cl) ref rend media tree w)))
            (get_cache_path c (coll_identifier cl) ref rend media tree)
          = Some NotJson"
    by (simp add: save_cache_open_def Let_def emit_def set_file_def)
  from a show "fst (get_cache c cl ref rend media tree
                 (snd (save_cache_open c (coll_identifier cl) ref rend media tree w)))
          = Inr JNull"
    by (simp add: save_cache_open_def Let_def emit_def set_file_def get_cache_def)
  from a show "if write_fails (disk w) (get_cache_path c (coll_identifier cl) ref rend media tree)
           then files (disk (snd (save_cache c (coll_identifier cl) ref rend media tree
                                    content w)))
                  (get_cache_path c (coll_identifier cl) ref rend media tree)
                = Some NotJson
           else files (disk (snd (save_cache c (coll_identifier cl) ref rend media tree
                                    content w)))
                  (get_cache_path c (coll_identifier cl) ref rend media tree)
                = Some (Json (envelope content))
              \<and> fst (get_cache c cl ref rend media tree
                       (snd (save_cache c (coll_identifier cl) ref rend media tree
                               content w)))
                = Inr (JStr content)"
    by (simp add: save_cache_def save_cache_open_def save_cache_dump_def and_then_def
          Let_def emit_def set_file_def get_cache_def envelope_def dict_get_def)
qed

text \<open>
  C9 as stated fails: the write does not go to a temporary file that is renamed into
  place. Saving a new \<open>html\<close> artifact over an existing one, the file that is opened for
  writing is the final path itself. After the open and before the dump the cache
  directory holds one file, the final path, truncated: no temporary file exists, the
  previous artifact is gone and the new one is not written yet. The three file operations
  of the whole save are on the final path and its directory, and none is a rename.
\<close>

theorem save_cache_truncates_final_path:
  "files (disk stale_world)
     = [get_cache_path default_cache ''ms001'' ''p1'' None ''html'' ''default''
          \<mapsto> Json (envelope ''<div>old</div>'')]
   \<and> save_cache_open default_cache ''ms001'' ''p1'' None ''html'' ''default'' stale_world
     = (Inr True,
        stale_world\<lparr>disk := empty_disk\<lparr>files :=
            [get_cache_path default_cache ''ms001'' ''p1'' None ''html'' ''default''
               \<mapsto> NotJson]\<rparr>,
          trace :=
            [CacheMkdir (parent (get_cache_path default_cache ''ms001'' ''p1'' None ''html''
                                   ''default'')),
             CacheOpenW (get_cache_path default_cache ''ms001'' ''p1'' None ''html''
                           ''default'')]\<rparr>)
   \<and> trace (snd (save_cache default_cache ''ms001'' ''p1'' None ''html'' ''default''
                  ''<div>new</div>'' stale_world))
     = [CacheMkdir (parent (get_cache_path default_cache ''ms001'' ''p1'' None ''html''
                              ''default'')),
        CacheOpenW (get_cache_path default_cache ''ms001'' ''p1'' None ''html'' ''default''),
        CacheWrite (get_cache_path default_cache ''ms001'' ''p1'' None ''html'' ''default'')
          ''<div>new</div>'']"
  by (simp add: save_cache_def save_cache_open_def save_cache_dump_def and_then_def Let_def
        stale_world_def fresh_world_def empty_disk_def emit_def set_file_def)

theorem save_cache_writes_in_place_witness:
  "trace (snd (save_cache default_cache ''ms001'' ''p1'' None ''html'' ''default''
                 ''<div>new</div>'' stale_world))
     = [CacheMkdir (parent (get_cache_path default_cache ''ms001'' ''p1'' None ''html''
                              ''default'')),
        CacheOpenW (get_cache_path default_cache ''ms001'' ''p1'' None ''html'' ''default''),
        CacheWrite (get_cache_path default_cache ''ms001'' ''p1'' None ''html'' ''default'')
          ''<div>new</div>'']
   \<and> fst (get_cache default_cache ms001 ''p1'' None ''html'' ''default'' stale_world)
     = Inr (JStr ''<div>old</div>'')
   \<and> fst (get_cache default_cache ms001 ''p1'' None ''html'' ''default''
            (snd (save_cache_open default_cache ''ms001'' ''p1'' None ''html'' ''default''
                    stale_world)))
     = Inr JNull
   \<and> fst (get_cache default_cache ms001 ''p1'' None ''html'' ''default''
            (snd (save_cache default_cache ''ms001'' ''p1'' None ''html'' ''default''
                    ''<div>new</div>'' stale_world)))
     = Inr (JStr ''<div>new</div>'')
   \<and> files (disk (snd (save_cache default_cache ''ms001'' ''p1'' None ''html'' ''default''
                         ''<div>new</div>'' stale_world)))
       (get_cache_path default_cache ''ms001'' ''p1'' None ''application/xml'' ''default'')
     = None"
proof -
  have nf: "\<not> mkdir_fails (disk stale_world) q" "\<not> open_fails (disk stale_world) q"
    "\<not> write_fails (disk stale_world) q" for q
    by (simp_all add: stale_world_def fresh_world_def empty_disk_def)
  have old: "fst (get_cache default_cache ms001 ''p1'' None ''html'' ''default'' stale_world)
     = Inr (JStr ''<div>old</div>'')"
    by (simp add: get_cache_envelope ms001_fields stale_world_def fresh_world_def)
  have other: "files (disk stale_world)
       (get_cache_path default_cache ''ms001'' ''p1'' None ''application/xml'' ''default'')
     = None"
    by (simp add: stale_world_def fresh_world_def base_path_is_not_html_path)
  note t = save_cache_writes_in_place [where c = default_cache and cl = ms001
      and ref = "''p1''" and rend = None and media = "''html''" and tree = "''default''"
      and content = "''<div>new</div>''" and w = stale_world]
  have tr: "trace (snd (save_cache default_cache ''ms001'' ''p1'' None ''html'' ''default''
                 ''<div>new</div>'' stale_world))
     = [CacheMkdir (parent (get_cache_path default_cache ''ms001'' ''p1'' None ''html''
                              ''default'')),
        CacheOpenW (get_cache_path default_cache ''ms001'' ''p1'' None ''html'' ''default''),
        CacheWrite (get_cache_path default_cache ''ms001'' ''p1'' None ''html'' ''default'')
          ''<div>new</div>'']"
    by (simp add: save_cache_ok nf saved_events_def)
       (simp add: stale_world_def fresh_world_def)
  from t have q: "files (disk (snd (save_cache default_cache ''ms001'' ''p1'' None ''html''
                         ''default'' ''<div>new</div>'' stale_world)))
       (get_cache_path default_cache ''ms001'' ''p1'' None ''application/xml'' ''default'')
     = files (disk stale_world)
         (get_cache_path default_cache ''ms001'' ''p1'' None ''application/xml'' ''default'')"
    using base_path_is_not_html_path by (simp add: ms001_fields)
  from t nf show ?thesis
    by (simp add: ms001_fields tr old q other)
qed


section \<open>The read path\<close>

text \<open>
  C1 (on a miss for the default media type the passage is extracted, stored in the cache
  and returned). The code extracts and returns but never stores: on an empty cache, the
  request for reference \<open>p1\<close> of \<open>ms001\<close> with no media type answers with the extracted
  passage, and the only effects are the lookup and the extraction; the cache stays empty.
\<close>

theorem base_passage_miss_is_not_stored:
  "custom_document_view default_cache None wrapping_engines corpus
     (Some ''ms001'') (Some ''p1'') None None None None fresh_world
   = (Inr (Reply \<lparr>data = JStr ''<p>p1</p>'', status = 200, mimetype = ''application/xml''\<rparr>),
      fresh_world\<lparr>trace :=
        [CacheRead (get_cache_path default_cache ''ms001'' ''p1'' None ''application/xml''
                      ''default''),
         Extract ''ms001.xml'' ''p1'' None ''default'']\<rparr>)
   \<and> files (disk fresh_world) = Map.empty
   \<and> files (disk (snd (custom_document_view default_cache None wrapping_engines corpus
                         (Some ''ms001'') (Some ''p1'') None None None None fresh_world)))
     = Map.empty"
  by (simp add: custom_document_view_def resolve_p1 serve_document_def truthy_str_def py_or_def
        str_opt_def DEFAULT_MEDIA_TYPE_def get_xml_passage_or_cache_def use_disk_cache_default
        get_cache_def and_then_def fresh_world_def empty_disk_def emit_def Let_def
        get_xml_passage_as_string_def wrapping_engines_def ms001_def)

text \<open>
  C3 (a request whose tree or reference is not in the navigation index gets a client-side
  error and the cache is not touched). With an unknown tree and no reference the check of
  the tree is skipped and \<^verbatim>\<open>nav.paths[tree]\<close> raises \<^verbatim>\<open>KeyError\<close>: the view ends with an
  exception, not with a \<^verbatim>\<open>msg_4xx\<close> response. The cache is not touched.
\<close>

theorem unknown_tree_without_reference_raises:
  "custom_document_view default_cache None wrapping_engines corpus
     (Some ''ms001'') None None None (Some ''bogus'') None fresh_world
   = (Inl KeyError, fresh_world)"
  by (simp add: custom_document_view_def resolve_request_def corpus_def ms001_def nav001_def
        truthy_str_def py_or_def not_in_def)

lemma unknown_tree_with_reference_refused:
  "custom_document_view default_cache None wrapping_engines corpus
     (Some ''ms001'') (Some ''p1'') None None (Some ''bogus'') None fresh_world
   = (Inr (Msg4xx ''Unknown tree bogus for resource `ms001`'' None), fresh_world)"
  by (simp add: custom_document_view_def resolve_request_def corpus_def ms001_def nav001_def
        truthy_str_def py_or_def not_in_def str_opt_def)

text \<open>
  Everywhere else the view does refuse: a request that is not let through leaves the
  world as it is, and once a reference, a range start or a range end is given, an unknown
  tree, an unknown reference and an unknown range endpoint all get \<^verbatim>\<open>msg_4xx\<close>.
\<close>

lemma request_not_served_leaves_world:
  "\<forall>cl t. resolve_request db resource ref start rend tree \<noteq> Proceed cl t \<Longrightarrow>
   snd (custom_document_view c env eng db resource ref start rend tree media w) = w"
  by (cases "resolve_request db resource ref start rend tree")
     (simp_all add: custom_document_view_def)

lemma invalid_request_refused:
  assumes "truthy_str resource"
    and "find (\<lambda>cl. Some (coll_identifier cl) = resource) (collections db) = Some cl"
    and "find (\<lambda>nv. collection_id nv = coll_id cl) (navigations db) = Some nav"
    and "truthy_str ref \<or> truthy_str start \<or> truthy_str rend"
    and "not_in (py_or tree (default_tree cl)) (map fst (references nav)) \<or>
         (\<exists>t ps. py_or tree (default_tree cl) = Some t \<and> map_of (paths nav) t = Some ps \<and>
            ((truthy_str ref \<and> not_in ref ps) \<or> (truthy_str start \<and> not_in start ps) \<or>
             (truthy_str rend \<and> not_in rend ps)))"
  shows "\<exists>message code.
           custom_document_view c env eng db resource ref start rend tree media w
           = (Inr (Msg4xx message code), w)"
  using assms
  by (auto simp: custom_document_view_def resolve_request_def Let_def)

text \<open>
  C2, as amended. With the disk cache enabled and starting from an empty cache, if the
  request is valid and names a reference and a non-default media type, extraction and
  transformation succeed, the transformed content is not empty and the cache file can be
  written, then the first request causes exactly one extraction and one transformation,
  and the same request made again is answered from the cache alone: its only effect is
  the lookup of the transformed artifact, so it causes no extraction and no
  transformation.
\<close>

theorem read_through_once_then_hit:
  fixes c :: cache and eng :: "'x engines" and env db resource ref start rend tree media
  defines "request \<equiv> custom_document_view c env eng db resource ref start rend tree media"
  assumes cache_on: "use_disk_cache env"
    and valid: "resolve_request db resource ref start rend tree = Proceed cl t"
    and asked: "py_or ref start = Some r" "r \<noteq> []"
    and media: "media = Some m" "m \<noteq> []" "m \<noteq> DEFAULT_MEDIA_TYPE"
    and empty: "files (disk w) = Map.empty"
    and no_fault: "\<not> mkdir_fails (disk w) (parent (get_cache_path c (coll_identifier cl) r rend m t))"
      "\<not> open_fails (disk w) (get_cache_path c (coll_identifier cl) r rend m t)"
      "\<not> write_fails (disk w) (get_cache_path c (coll_identifier cl) r rend m t)"
    and extracted: "get_passage eng (filepath cl) r rend t = Inr x"
    and transformed: "transformed eng m cl (JStr x) = Inr resp"
    and nonempty: "data resp \<noteq> []"
  shows "fst (request w)
           = Inr (Reply \<lparr>data = JStr (data resp), status = status resp,
                         mimetype = mimetype resp\<rparr>)
       \<and> extract_calls (snd (request w)) = extract_calls w + 1
       \<and> transform_calls (snd (request w)) = transform_calls w + 1
       \<and> request (snd (request w))
         = (Inr (Reply \<lparr>data = JStr (data resp), status = 200,
                        mimetype = mapping_get (mapping eng) m\<rparr>),
            emit (CacheRead (get_cache_path c (coll_identifier cl) r rend m t))
              (snd (request w)))
       \<and> extract_calls (snd (request (snd (request w)))) = extract_calls (snd (request w))
       \<and> transform_calls (snd (request (snd (request w))))
           = transform_calls (snd (request w))"
proof -
  define p where "p = get_cache_path c (coll_identifier cl) r rend m t"
  define pb where "pb = get_cache_path c (coll_identifier cl) r rend ''application/xml'' t"
  have tr: "truthy_str ref \<or> truthy_str start"
    using asked by (auto simp: py_or_def truthy_str_def split: if_splits)
  have m': "str_opt (py_or media (Some DEFAULT_MEDIA_TYPE)) = m"
    using media by (simp add: py_or_def truthy_str_def str_opt_def)
  define w1 where "w1 = w\<lparr>disk := (disk w)\<lparr>files := (files (disk w))(p \<mapsto> Json (envelope (data resp)))\<rparr>,
      trace := trace w @ [CacheRead p, CacheRead pb, Extract (filepath cl) r rend t,
                          Transform m (JStr x)] @ saved_events p (data resp)\<rparr>"
  have first: "request w
      = (Inr (Reply \<lparr>data = JStr (data resp), status = status resp, mimetype = mimetype resp\<rparr>), w1)"
    using tr asked(1) media(3) cache_on empty no_fault extracted transformed
    by (auto simp add: request_def custom_document_view_def valid serve_document_def m'
          Let_def get_cache_miss and_then_def transform_and_store_def
          get_xml_passage_or_cache_def
          get_xml_passage_as_string_def get_transformed_def emit_def save_cache_ok
          w1_def p_def pb_def)
  have second: "request w1
      = (Inr (Reply \<lparr>data = JStr (data resp), status = 200,
                     mimetype = mapping_get (mapping eng) m\<rparr>), emit (CacheRead p) w1)"
    using tr asked(1) media(3) cache_on nonempty
    by (auto simp add: request_def custom_document_view_def valid serve_document_def m'
          Let_def get_cache_envelope and_then_def w1_def p_def)
  show ?thesis
    unfolding first fst_conv snd_conv second
    by (simp add: w1_def extract_calls_def transform_calls_def saved_events_def p_def
          emit_def)
qed


text \<open>
  C2 as stated fails when the transformation yields the empty text: the artifact is
  saved, the second request finds it, takes the empty string for a miss and extracts and
  transforms again.
\<close>

theorem empty_rendering_is_regenerated:
  "files (disk fresh_world) = Map.empty
   \<and> extract_calls (snd (html_request blank_engines fresh_world)) = 1
   \<and> transform_calls (snd (html_request blank_engines fresh_world)) = 1
   \<and> extract_calls (snd (html_request blank_engines (snd (html_request blank_engines fresh_world)))) = 2
   \<and> transform_calls (snd (html_request blank_engines (snd (html_request blank_engines fresh_world)))) = 2"
proof -
  define p where "p = get_cache_path default_cache ''ms001'' ''p1'' None ''html'' ''default''"
  define pb where "pb = get_cache_path default_cache ''ms001'' ''p1'' None ''application/xml'' ''default''"
  define w1 where "w1 = fresh_world\<lparr>disk := empty_disk\<lparr>files := [p \<mapsto> Json (envelope [])]\<rparr>,
      trace := [CacheRead p, CacheRead pb, Extract ''ms001.xml'' ''p1'' None ''default'',
                Transform ''html'' (JStr ''<p>p1</p>'')] @ saved_events p []\<rparr>"
  have first: "snd (html_request blank_engines fresh_world) = w1"
    by (simp add: html_request_def custom_document_view_def resolve_p1 serve_document_def
        truthy_str_def py_or_def str_opt_def DEFAULT_MEDIA_TYPE_def use_disk_cache_default
        Let_def get_cache_miss and_then_def transform_and_store_def
        get_xml_passage_or_cache_def get_xml_passage_as_string_def get_transformed_def
        transformed_def emit_def save_cache_ok blank_engines_def wrapping_engines_def
        fresh_world_def empty_disk_def ms001_def w1_def p_def pb_def)
  have second: "trace (snd (html_request blank_engines w1))
      = trace w1 @ [CacheRead p, CacheRead pb, Extract ''ms001.xml'' ''p1'' None ''default'',
                Transform ''html'' (JStr ''<p>p1</p>'')] @ saved_events p []"
    by (simp add: html_request_def custom_document_view_def resolve_p1 serve_document_def
        truthy_str_def py_or_def str_opt_def DEFAULT_MEDIA_TYPE_def use_disk_cache_default
        Let_def get_cache_def envelope_def dict_get_def and_then_def transform_and_store_def
        get_xml_passage_or_cache_def get_xml_passage_as_string_def get_transformed_def
        transformed_def emit_def save_cache_ok blank_engines_def wrapping_engines_def
        fresh_world_def empty_disk_def ms001_def w1_def p_def pb_def)
  show ?thesis
    unfolding first
    by (simp add: extract_calls_def transform_calls_def second)
       (simp add: w1_def saved_events_def fresh_world_def empty_disk_def)
qed

theorem read_through_once_then_hit_witness:
  "extract_calls (snd (html_request wrapping_engines fresh_world)) = 1
   \<and> transform_calls (snd (html_request wrapping_engines fresh_world)) = 1
   \<and> html_request wrapping_engines (snd (html_request wrapping_engines fresh_world))
     = (Inr (Reply \<lparr>data = JStr ''<div><p>p1</p></div>'', status = 200, mimetype = ''html''\<rparr>),
        emit (CacheRead (get_cache_path default_cache ''ms001'' ''p1'' None ''html'' ''default''))
          (snd (html_request wrapping_engines fresh_world)))"
proof -
  have a: "py_or (Some ''p1'') None = Some ''p1''"
    by (simp add: py_or_def truthy_str_def)
  have f: "files (disk fresh_world) = Map.empty"
    by (simp add: fresh_world_def empty_disk_def)
  have x: "get_passage wrapping_engines (filepath ms001) ''p1'' None ''default''
           = Inr ''<p>p1</p>''"
    by (simp add: wrapping_engines_def)
  have t: "transformed wrapping_engines ''html'' ms001 (JStr ''<p>p1</p>'')
           = Inr \<lparr>data = ''<div><p>p1</p></div>'', status = 200, mimetype = ''html''\<rparr>"
    by (simp add: transformed_def wrapping_engines_def)
  have ne: "''p1'' \<noteq> []" "''html'' \<noteq> []" "''html'' \<noteq> DEFAULT_MEDIA_TYPE"
    "data \<lparr>data = ''<div><p>p1</p></div>'', status = 200, mimetype = ''html''\<rparr> \<noteq> []"
    by (simp_all add: DEFAULT_MEDIA_TYPE_def)
  have nf: "\<not> mkdir_fails (disk fresh_world) q" "\<not> open_fails (disk fresh_world) q"
    "\<not> write_fails (disk fresh_world) q" for q
    by (simp_all add: fresh_world_def empty_disk_def)
  have z: "extract_calls fresh_world = 0" "transform_calls fresh_world = 0"
    "mapping_get (mapping wrapping_engines) ''html'' = ''html''"
    by (simp_all add: extract_calls_def transform_calls_def fresh_world_def mapping_get_def
          wrapping_engines_def)
  show ?thesis
    using read_through_once_then_hit [where c = default_cache and env = None and eng = wrapping_engines
          and db = corpus and resource = "Some ''ms001''" and ref = "Some ''p1''"
          and start = None and rend = None and tree = None and media = "Some ''html''"
          and w = fresh_world and cl = ms001 and t = "''default''" and r = "''p1''"
          and m = "''html''",
        OF use_disk_cache_default resolve_p1 a ne(1) refl ne(2) ne(3) f nf x t ne(4)]
    by (simp add: html_request_def z ms001_fields)
qed


lemma holds_emptyD:
  "holds_empty c (disk w) cl r e m t \<Longrightarrow>
   get_cache c cl r e m t w
   = (Inr (JStr []), emit (CacheRead (get_cache_path c (coll_identifier cl) r e m t)) w)"
  by (auto simp: holds_empty_def get_cache_object split: option.splits cache_file.splits json.splits)

lemma get_cache_result:
  assumes "fst (get_cache c cl r e m t w) = Inr v" and "disk w' = disk w"
  shows "get_cache c cl r e m t w'
         = (Inr v, emit (CacheRead (get_cache_path c (coll_identifier cl) r e m t)) w')"
  using assms
  by (auto simp: get_cache_def Let_def split: option.splits cache_file.splits json.splits)

lemma scenario_files:
  "p \<in> set scenario_paths \<Longrightarrow> files (scenario_disk s) p = Some (Json (envelope s))"
  by (simp add: scenario_disk_def empty_disk_def)

lemma scenario_keys:
  "get_cache_path default_cache ''ms001'' ''p1'' None ''application/xml'' ''default''
     \<in> set scenario_paths"
  "get_cache_path default_cache ''ms001'' ''p1'' None ''html'' ''default''
     \<in> set scenario_paths"
  "get_cache_path default_cache ''ms001'' ''p2'' None ''application/xml'' ''default''
     \<in> set scenario_paths"
  "get_cache_path default_cache ''ms001'' ''p2'' None ''html'' ''default''
     \<in> set scenario_paths"
  by (simp_all add: scenario_paths_def)

lemma resolve_p1_single:
  "resolve_request corpus_single (Some ''ms001'') (Some ''p1'') None None None
   = Proceed ms001 ''default''"
  by (simp add: resolve_request_def corpus_single_def ms001_def nav_single_def truthy_str_def
        py_or_def not_in_def)

text \<open>
  C10, as amended. Where the stored envelope of a key holds the empty string, the three
  lookups that test truthiness take it for a miss, on every access and without force:
  \<^item> get_xml_passage_or_cache extracts the passage again, and stores nothing;
  \<^item> the view, asked for a transformed artifact, resolves the base passage (from its own
    cache entry when that holds content, by extraction otherwise), transforms it, saves
    the result at the key and answers with it;
  \<^item> the batch generator, at its base-passage check, extracts the passage, saves it at
    the key of the base passage and counts one more generated page.
  The lookup of the batch generator for a requested media type tests for \<^verbatim>\<open>None\<close>: it takes
  the empty string for a hit and goes on to the next media type. A save of the empty
  content leaves the key holding the empty string, so the same happens at the next
  access.
\<close>

theorem empty_content_is_a_miss:
  "(use_disk_cache env \<and> holds_empty c (disk w) cl r rend ''application/xml'' t \<longrightarrow>
      get_xml_passage_or_cache c env eng cl r rend t w
      = ((case get_passage eng (filepath cl) r rend t of
            Inl e \<Rightarrow> Inl e | Inr passage \<Rightarrow> Inr (JStr passage)),
         w\<lparr>trace := trace w @
              [CacheRead (get_cache_path c (coll_identifier cl) r rend ''application/xml'' t),
               Extract (filepath cl) r rend t]\<rparr>))
   \<and> (use_disk_cache env \<and> resolve_request db resource ref start rend tree = Proceed cl t \<and>
       py_or ref start = Some r \<and> r \<noteq> [] \<and> media = Some m \<and> m \<noteq> [] \<and>
       m \<noteq> DEFAULT_MEDIA_TYPE \<and> holds_empty c (disk w) cl r rend m t \<and>
       fst (get_cache c cl r rend ''application/xml'' t w) = Inr base \<and>
       (\<not> truthy base \<longrightarrow> get_passage eng (filepath cl) r rend t = Inr x) \<and>
       transformed eng m cl (if truthy base then base else JStr x) = Inr resp \<and>
       \<not> mkdir_fails (disk w) (parent (get_cache_path c (coll_identifier cl) r rend m t)) \<and>
       \<not> open_fails (disk w) (get_cache_path c (coll_identifier cl) r rend m t) \<and>
       \<not> write_fails (disk w) (get_cache_path c (coll_identifier cl) r rend m t) \<longrightarrow>
      custom_document_view c env eng db resource ref start rend tree media w
      = (Inr (Reply \<lparr>data = JStr (data resp), status = status resp,
                     mimetype = mimetype resp\<rparr>),
         w\<lparr>disk := (disk w)\<lparr>files := (files (disk w))
               (get_cache_path c (coll_identifier cl) r rend m t
                  \<mapsto> Json (envelope (data resp)))\<rparr>,
           trace := trace w @
             [CacheRead (get_cache_path c (coll_identifier cl) r rend m t),
              CacheRead (get_cache_path c (coll_identifier cl) r rend ''application/xml'' t)]
             @ (if truthy base then [] else [Extract (filepath cl) r rend t])
             @ [Transform m (if truthy base then base else JStr x)]
             @ saved_events (get_cache_path c (coll_identifier cl) r rend m t)
                 (data resp)\<rparr>))
   \<and> (holds_empty c (disk w) cl (ref_identifier rf) None DEFAULT_MEDIA_TYPE t \<and>
       get_passage eng (filepath cl) (ref_identifier rf) None t = Inr y \<and>
       \<not> mkdir_fails (disk w)
           (parent (get_cache_path c (coll_identifier cl) (ref_identifier rf) None
                      DEFAULT_MEDIA_TYPE t)) \<and>
       \<not> open_fails (disk w)
           (get_cache_path c (coll_identifier cl) (ref_identifier rf) None
              DEFAULT_MEDIA_TYPE t) \<and>
       \<not> write_fails (disk w)
           (get_cache_path c (coll_identifier cl) (ref_identifier rf) None
              DEFAULT_MEDIA_TYPE t) \<longrightarrow>
      prerender_reference c eng cl t False ms rf n w
      = prerender_media_types c eng cl t (ref_identifier rf) (JStr y) False ms (n + 1)
          (w\<lparr>disk := (disk w)\<lparr>files := (files (disk w))
                (get_cache_path c (coll_identifier cl) (ref_identifier rf) None
                   DEFAULT_MEDIA_TYPE t \<mapsto> Json (envelope y))\<rparr>,
             trace := trace w @
               [CacheRead (get_cache_path c (coll_identifier cl) (ref_identifier rf) None
                             DEFAULT_MEDIA_TYPE t),
                Extract (filepath cl) (ref_identifier rf) None t]
               @ saved_events (get_cache_path c (coll_identifier cl) (ref_identifier rf) None
                                 DEFAULT_MEDIA_TYPE t) y\<rparr>))
   \<and> (holds_empty c (disk w) cl rid None mt t \<longrightarrow>
      prerender_media_types c eng cl t rid bc False (mt # rest) k w
      = prerender_media_types c eng cl t rid bc False rest k
          (w\<lparr>trace := trace w @
                [CacheRead (get_cache_path c (coll_identifier cl) rid None mt t)]\<rparr>))
   \<and> (\<not> mkdir_fails (disk w) (parent (get_cache_path c (coll_identifier cl) r rend m t)) \<and>
       \<not> open_fails (disk w) (get_cache_path c (coll_identifier cl) r rend m t) \<and>
       \<not> write_fails (disk w) (get_cache_path c (coll_identifier cl) r rend m t) \<longrightarrow>
      holds_empty c (disk (snd (save_cache c (coll_identifier cl) r rend m t [] w)))
        cl r rend m t)"
proof (intro conjI impI)
  assume "use_disk_cache env \<and> holds_empty c (disk w) cl r rend ''application/xml'' t"
  then show "get_xml_passage_or_cache c env eng cl r rend t w
      = ((case get_passage eng (filepath cl) r rend t of
            Inl e \<Rightarrow> Inl e | Inr passage \<Rightarrow> Inr (JStr passage)),
         w\<lparr>trace := trace w @
              [CacheRead (get_cache_path c (coll_identifier cl) r rend ''application/xml'' t),
               Extract (filepath cl) r rend t]\<rparr>)"
    by (simp add: get_xml_passage_or_cache_def holds_emptyD and_then_def
          get_xml_passage_as_string_def emit_def split: sum.splits)
next
  define pm where "pm = get_cache_path c (coll_identifier cl) r rend m t"
  define pb where "pb = get_cache_path c (coll_identifier cl) r rend ''application/xml'' t"
  assume a: "use_disk_cache env \<and> resolve_request db resource ref start rend tree = Proceed cl t \<and>
       py_or ref start = Some r \<and> r \<noteq> [] \<and> media = Some m \<and> m \<noteq> [] \<and>
       m \<noteq> DEFAULT_MEDIA_TYPE \<and> holds_empty c (disk w) cl r rend m t \<and>
       fst (get_cache c cl r rend ''application/xml'' t w) = Inr base \<and>
       (\<not> truthy base \<longrightarrow> get_passage eng (filepath cl) r rend t = Inr x) \<and>
       transformed eng m cl (if truthy base then base else JStr x) = Inr resp \<and>
       \<not> mkdir_fails (disk w) (parent (get_cache_path c (coll_identifier cl) r rend m t)) \<and>
       \<not> open_fails (disk w) (get_cache_path c (coll_identifier cl) r rend m t) \<and>
       \<not> write_fails (disk w) (get_cache_path c (coll_identifier cl) r rend m t)"
  then have tr: "truthy_str ref \<or> truthy_str start"
    by (auto simp: py_or_def truthy_str_def split: if_splits)
  have m': "str_opt (py_or (Some m) (Some DEFAULT_MEDIA_TYPE)) = m"
    using a by (simp add: py_or_def truthy_str_def str_opt_def)
  have view: "custom_document_view c env eng db resource ref start rend tree media w
      = transform_and_store c env eng cl r rend m t (emit (CacheRead pm) w)"
    using a tr
    by (auto simp add: custom_document_view_def serve_document_def m' Let_def holds_emptyD
          and_then_def pm_def)
  have "get_cache c cl r rend ''application/xml'' t (emit (CacheRead pm) w)
      = (Inr base, emit (CacheRead pb) (emit (CacheRead pm) w))"
    unfolding pb_def
    by (rule get_cache_result [where w = w]) (use a in \<open>simp_all add: emit_def\<close>)
  then have lookup: "get_cache c cl r rend ''application/xml'' t
        (w\<lparr>trace := trace w @ [CacheRead pm]\<rparr>)
      = (Inr base, w\<lparr>trace := trace w @ [CacheRead pm, CacheRead pb]\<rparr>)"
    by (simp add: emit_def)
  have nf: "\<not> mkdir_fails (disk w) (parent pm)" "\<not> open_fails (disk w) pm"
    "\<not> write_fails (disk w) pm"
    using a by (simp_all add: pm_def)
  have "transform_and_store c env eng cl r rend m t (emit (CacheRead pm) w)
      = (Inr (Reply \<lparr>data = JStr (data resp), status = status resp,
                     mimetype = mimetype resp\<rparr>),
         w\<lparr>disk := (disk w)\<lparr>files := (files (disk w))(pm \<mapsto> Json (envelope (data resp)))\<rparr>,
           trace := trace w @ [CacheRead pm, CacheRead pb]
             @ (if truthy base then [] else [Extract (filepath cl) r rend t])
             @ [Transform m (if truthy base then base else JStr x)]
             @ saved_events pm (data resp)\<rparr>)"
  proof (cases "truthy base")
    case True
    with a have t: "transformed eng m cl base = Inr resp" by simp
    show ?thesis
      using a True t nf
      by (simp add: transform_and_store_def get_xml_passage_or_cache_def lookup and_then_def
            get_transformed_def emit_def save_cache_ok pm_def [symmetric])
  next
    case False
    with a have t: "transformed eng m cl (JStr x) = Inr resp"
      and g: "get_passage eng (filepath cl) r rend t = Inr x" by simp_all
    show ?thesis
      using a False t g nf
      by (simp add: transform_and_store_def get_xml_passage_or_cache_def lookup and_then_def
            get_xml_passage_as_string_def get_transformed_def emit_def save_cache_ok
            pm_def [symmetric])
  qed
  then show "custom_document_view c env eng db resource ref start rend tree media w
      = (Inr (Reply \<lparr>data = JStr (data resp), status = status resp,
                     mimetype = mimetype resp\<rparr>),
         w\<lparr>disk := (disk w)\<lparr>files := (files (disk w))
               (get_cache_path c (coll_identifier cl) r rend m t
                  \<mapsto> Json (envelope (data resp)))\<rparr>,
           trace := trace w @
             [CacheRead (get_cache_path c (coll_identifier cl) r rend m t),
              CacheRead (get_cache_path c (coll_identifier cl) r rend ''application/xml'' t)]
             @ (if truthy base then [] else [Extract (filepath cl) r rend t])
             @ [Transform m (if truthy base then base else JStr x)]
             @ saved_events (get_cache_path c (coll_identifier cl) r rend m t)
                 (data resp)\<rparr>)"
    unfolding view by (simp add: pm_def pb_def)
next
  assume a: "holds_empty c (disk w) cl (ref_identifier rf) None DEFAULT_MEDIA_TYPE t \<and>
       get_passage eng (filepath cl) (ref_identifier rf) None t = Inr y \<and>
       \<not> mkdir_fails (disk w)
           (parent (get_cache_path c (coll_identifier cl) (ref_identifier rf) None
                      DEFAULT_MEDIA_TYPE t)) \<and>
       \<not> open_fails (disk w)
           (get_cache_path c (coll_identifier cl) (ref_identifier rf) None
              DEFAULT_MEDIA_TYPE t) \<and>
       \<not> write_fails (disk w)
           (get_cache_path c (coll_identifier cl) (ref_identifier rf) None
              DEFAULT_MEDIA_TYPE t)"
  then show "prerender_reference c eng cl t False ms rf n w
      = prerender_media_types c eng cl t (ref_identifier rf) (JStr y) False ms (n + 1)
          (w\<lparr>disk := (disk w)\<lparr>files := (files (disk w))
                (get_cache_path c (coll_identifier cl) (ref_identifier rf) None
                   DEFAULT_MEDIA_TYPE t \<mapsto> Json (envelope y))\<rparr>,
             trace := trace w @
               [CacheRead (get_cache_path c (coll_identifier cl) (ref_identifier rf) None
                             DEFAULT_MEDIA_TYPE t),
                Extract (filepath cl) (ref_identifier rf) None t]
               @ saved_events (get_cache_path c (coll_identifier cl) (ref_identifier rf) None
                                 DEFAULT_MEDIA_TYPE t) y\<rparr>)"
    by (simp add: prerender_reference_def holds_emptyD and_then_def Let_def
          get_xml_passage_as_string_def emit_def save_cache_ok)
next
  assume "holds_empty c (disk w) cl rid None mt t"
  then show "prerender_media_types c eng cl t rid bc False (mt # rest) k w
      = prerender_media_types c eng cl t rid bc False rest k
          (w\<lparr>trace := trace w @
                [CacheRead (get_cache_path c (coll_identifier cl) rid None mt t)]\<rparr>)"
    by (simp add: holds_emptyD and_then_def emit_def)
next
  assume "\<not> mkdir_fails (disk w) (parent (get_cache_path c (coll_identifier cl) r rend m t)) \<and>
       \<not> open_fails (disk w) (get_cache_path c (coll_identifier cl) r rend m t) \<and>
       \<not> write_fails (disk w) (get_cache_path c (coll_identifier cl) r rend m t)"
  then show "holds_empty c (disk (snd (save_cache c (coll_identifier cl) r rend m t [] w)))
        cl r rend m t"
    by (simp add: save_cache_ok holds_empty_def envelope_def dict_get_def)
qed

lemma blank_html_files:
  "files (disk blank_html_world)
     (get_cache_path default_cache ''ms001'' ''p1'' None ''application/xml'' ''default'')
   = Some (Json (envelope ''<p>p1</p>''))"
  "files (disk blank_html_world)
     (get_cache_path default_cache ''ms001'' ''p1'' None ''html'' ''default'')
   = Some (Json (envelope []))"
  by (simp_all add: blank_html_world_def base_path_is_not_html_path)

text \<open>
  C10 as stated fails for the fourth lookup of the cache, and in what is regenerated. In a
  cache whose \<open>html\<close> artifact of reference \<open>p1\<close> is the empty string and whose base
  passage is cached, the batch generator without force looks both entries up and
  generates nothing: its lookup for the media type takes the empty string for a hit. The
  view takes the empty artifact for a miss, but extracts nothing: it transforms the cached
  base passage and saves the result.
\<close>

theorem empty_rendering_is_a_hit_for_the_batch:
  "holds_empty default_cache (disk blank_html_world) ms001 ''p1'' None ''html'' ''default''
   \<and> prerender_collection default_cache wrapping_engines corpus_single
       (7, [''html''], False) blank_html_world
     = (Inr 0,
        blank_html_world\<lparr>trace :=
          [CacheRead (get_cache_path default_cache ''ms001'' ''p1'' None ''application/xml''
                        ''default''),
           CacheRead (get_cache_path default_cache ''ms001'' ''p1'' None ''html''
                        ''default'')]\<rparr>)
   \<and> custom_document_view default_cache None wrapping_engines corpus_single (Some ''ms001'')
       (Some ''p1'') None None None (Some ''html'') blank_html_world
     = (Inr (Reply \<lparr>data = JStr ''<div><p>p1</p></div>'', status = 200, mimetype = ''html''\<rparr>),
        blank_html_world\<lparr>disk := empty_disk\<lparr>files :=
            [get_cache_path default_cache ''ms001'' ''p1'' None ''application/xml'' ''default''
               \<mapsto> Json (envelope ''<p>p1</p>''),
             get_cache_path default_cache ''ms001'' ''p1'' None ''html'' ''default''
               \<mapsto> Json (envelope ''<div><p>p1</p></div>'')]\<rparr>,
          trace :=
            [CacheRead (get_cache_path default_cache ''ms001'' ''p1'' None ''html''
                          ''default''),
             CacheRead (get_cache_path default_cache ''ms001'' ''p1'' None ''application/xml''
                          ''default''),
             Transform ''html'' (JStr ''<p>p1</p>''),
             CacheMkdir (parent (get_cache_path default_cache ''ms001'' ''p1'' None ''html''
                                   ''default'')),
             CacheOpenW (get_cache_path default_cache ''ms001'' ''p1'' None ''html''
                           ''default''),
             CacheWrite (get_cache_path default_cache ''ms001'' ''p1'' None ''html''
                           ''default'') ''<div><p>p1</p></div>'']\<rparr>)"
proof (intro conjI)
  show "holds_empty default_cache (disk blank_html_world) ms001 ''p1'' None ''html''
          ''default''"
    by (simp add: holds_empty_def ms001_fields blank_html_files envelope_def dict_get_def)
  show "prerender_collection default_cache wrapping_engines corpus_single
       (7, [''html''], False) blank_html_world
     = (Inr 0,
        blank_html_world\<lparr>trace :=
          [CacheRead (get_cache_path default_cache ''ms001'' ''p1'' None ''application/xml''
                        ''default''),
           CacheRead (get_cache_path default_cache ''ms001'' ''p1'' None ''html''
                        ''default'')]\<rparr>)"
    by (simp add: prerender_collection_def corpus_single_def nav_single_def ms001_fields
          prerender_reference_def Let_def DEFAULT_MEDIA_TYPE_def get_cache_envelope
          blank_html_files and_then_def emit_def)
       (simp add: blank_html_world_def fresh_world_def)
  show "custom_document_view default_cache None wrapping_engines corpus_single (Some ''ms001'')
       (Some ''p1'') None None None (Some ''html'') blank_html_world
     = (Inr (Reply \<lparr>data = JStr ''<div><p>p1</p></div>'', status = 200, mimetype = ''html''\<rparr>),
        blank_html_world\<lparr>disk := empty_disk\<lparr>files :=
            [get_cache_path default_cache ''ms001'' ''p1'' None ''application/xml'' ''default''
               \<mapsto> Json (envelope ''<p>p1</p>''),
             get_cache_path default_cache ''ms001'' ''p1'' None ''html'' ''default''
               \<mapsto> Json (envelope ''<div><p>p1</p></div>'')]\<rparr>,
          trace :=
            [CacheRead (get_cache_path default_cache ''ms001'' ''p1'' None ''html''
                          ''default''),
             CacheRead (get_cache_path default_cache ''ms001'' ''p1'' None ''application/xml''
                          ''default''),
             Transform ''html'' (JStr ''<p>p1</p>''),
             CacheMkdir (parent (get_cache_path default_cache ''ms001'' ''p1'' None ''html''
                                   ''default'')),
             CacheOpenW (get_cache_path default_cache ''ms001'' ''p1'' None ''html''
                           ''default''),
             CacheWrite (get_cache_path default_cache ''ms001'' ''p1'' None ''html''
                           ''default'') ''<div><p>p1</p></div>'']\<rparr>)"
    by (simp add: custom_document_view_def resolve_p1_single serve_document_def truthy_str_def
          py_or_def str_opt_def DEFAULT_MEDIA_TYPE_def use_disk_cache_default Let_def
          get_cache_envelope blank_html_files ms001_fields and_then_def
          transform_and_store_def get_xml_passage_or_cache_def get_transformed_def
          transformed_def wrapping_engines_def emit_def)
       (simp add: save_cache_def save_cache_open_def save_cache_dump_def and_then_def Let_def
          emit_def set_file_def blank_html_world_def fresh_world_def empty_disk_def)
qed

theorem empty_content_is_a_miss_witness:
  "get_xml_passage_or_cache default_cache None wrapping_engines ms001 ''p1'' None ''default''
     (fresh_world\<lparr>disk := scenario_disk []\<rparr>)
   = (Inr (JStr ''<p>p1</p>''),
      fresh_world\<lparr>disk := scenario_disk [],
        trace := [CacheRead (get_cache_path default_cache ''ms001'' ''p1'' None
                               ''application/xml'' ''default''),
                  Extract ''ms001.xml'' ''p1'' None ''default'']\<rparr>)
   \<and> custom_document_view default_cache None wrapping_engines corpus (Some ''ms001'')
       (Some ''p1'') None None None (Some ''html'') (fresh_world\<lparr>disk := scenario_disk []\<rparr>)
     = (Inr (Reply \<lparr>data = JStr ''<div><p>p1</p></div>'', status = 200, mimetype = ''html''\<rparr>),
        fresh_world\<lparr>disk := (scenario_disk [])\<lparr>files := (files (scenario_disk []))
              (get_cache_path default_cache ''ms001'' ''p1'' None ''html'' ''default''
                 \<mapsto> Json (envelope ''<div><p>p1</p></div>''))\<rparr>,
          trace :=
            [CacheRead (get_cache_path default_cache ''ms001'' ''p1'' None ''html''
                          ''default''),
             CacheRead (get_cache_path default_cache ''ms001'' ''p1'' None ''application/xml''
                          ''default''),
             Extract ''ms001.xml'' ''p1'' None ''default'',
             Transform ''html'' (JStr ''<p>p1</p>''),
             CacheMkdir (parent (get_cache_path default_cache ''ms001'' ''p1'' None ''html''
                                   ''default'')),
             CacheOpenW (get_cache_path default_cache ''ms001'' ''p1'' None ''html''
                           ''default''),
             CacheWrite (get_cache_path default_cache ''ms001'' ''p1'' None ''html''
                           ''default'') ''<div><p>p1</p></div>'']\<rparr>)
   \<and> prerender_reference default_cache wrapping_engines ms001 ''default'' False []
       \<lparr>ref_identifier = ''p1''\<rparr> 0 (fresh_world\<lparr>disk := scenario_disk []\<rparr>)
     = (Inr 1,
        fresh_world\<lparr>disk := (scenario_disk [])\<lparr>files := (files (scenario_disk []))
              (get_cache_path default_cache ''ms001'' ''p1'' None ''application/xml''
                 ''default'' \<mapsto> Json (envelope ''<p>p1</p>''))\<rparr>,
          trace :=
            [CacheRead (get_cache_path default_cache ''ms001'' ''p1'' None ''application/xml''
                          ''default''),
             Extract ''ms001.xml'' ''p1'' None ''default'',
             CacheMkdir (parent (get_cache_path default_cache ''ms001'' ''p1'' None
                                   ''application/xml'' ''default'')),
             CacheOpenW (get_cache_path default_cache ''ms001'' ''p1'' None
                           ''application/xml'' ''default''),
             CacheWrite (get_cache_path default_cache ''ms001'' ''p1'' None
                           ''application/xml'' ''default'') ''<p>p1</p>'']\<rparr>)
   \<and> prerender_media_types default_cache wrapping_engines ms001 ''default'' ''p1''
       (JStr ''<p>p1</p>'') False [''html''] 0 (fresh_world\<lparr>disk := scenario_disk []\<rparr>)
     = (Inr 0,
        fresh_world\<lparr>disk := scenario_disk [],
          trace := [CacheRead (get_cache_path default_cache ''ms001'' ''p1'' None ''html''
                                 ''default'')]\<rparr>)
   \<and> holds_empty default_cache
       (disk (snd (save_cache default_cache ''ms001'' ''p1'' None ''html'' ''default'' []
                     (fresh_world\<lparr>disk := scenario_disk []\<rparr>))))
       ms001 ''p1'' None ''html'' ''default''"
proof -
  define w where "w = fresh_world\<lparr>disk := scenario_disk []\<rparr>"
  have h: "holds_empty default_cache (disk w) ms001 ''p1'' None ''application/xml'' ''default''"
    "holds_empty default_cache (disk w) ms001 ''p1'' None ''html'' ''default''"
    "holds_empty default_cache (disk w) ms001 ''p1'' None DEFAULT_MEDIA_TYPE ''default''"
    by (simp_all add: holds_empty_def w_def scenario_files scenario_keys ms001_fields
          DEFAULT_MEDIA_TYPE_def envelope_def dict_get_def)
  have b: "fst (get_cache default_cache ms001 ''p1'' None ''application/xml'' ''default'' w)
           = Inr (JStr [])"
    by (simp add: get_cache_envelope w_def scenario_files scenario_keys ms001_fields)
  have a: "py_or (Some ''p1'') None = Some ''p1''"
    by (simp add: py_or_def truthy_str_def)
  have x: "get_passage wrapping_engines ''ms001.xml'' ''p1'' None ''default''
           = Inr ''<p>p1</p>''"
    by (simp add: wrapping_engines_def)
  have tf: "transformed wrapping_engines ''html'' ms001
              (if truthy (JStr []) then JStr [] else JStr ''<p>p1</p>'')
           = Inr \<lparr>data = ''<div><p>p1</p></div>'', status = 200, mimetype = ''html''\<rparr>"
    by (simp add: transformed_def wrapping_engines_def)
  have nf: "\<not> mkdir_fails (disk w) q" "\<not> open_fails (disk w) q" "\<not> write_fails (disk w) q"
    for q
    by (simp_all add: w_def scenario_disk_def empty_disk_def)
  have ne: "''p1'' \<noteq> []" "''html'' \<noteq> []" "''html'' \<noteq> DEFAULT_MEDIA_TYPE"
    by (simp_all add: DEFAULT_MEDIA_TYPE_def)
  have tw: "trace w = []" by (simp add: w_def fresh_world_def)
  note t = empty_content_is_a_miss [where env = None and c = default_cache and w = w
      and cl = ms001 and r = "''p1''" and rend = None and t = "''default''"
      and eng = wrapping_engines and db = corpus and resource = "Some ''ms001''"
      and ref = "Some ''p1''" and start = None and tree = None and media = "Some ''html''"
      and m = "''html''" and base = "JStr []" and x = "''<p>p1</p>''"
      and resp = "\<lparr>data = ''<div><p>p1</p></div>'', status = 200, mimetype = ''html''\<rparr>"
      and rf = "\<lparr>ref_identifier = ''p1''\<rparr>" and y = "''<p>p1</p>''" and ms = "[]" and n = 0
      and rid = "''p1''" and mt = "''html''" and bc = "JStr ''<p>p1</p>''" and rest = "[]"
      and k = 0]
  have 1: "get_xml_passage_or_cache default_cache None wrapping_engines ms001 ''p1'' None
             ''default'' w
           = (Inr (JStr ''<p>p1</p>''),
              w\<lparr>trace := [CacheRead (get_cache_path default_cache ''ms001'' ''p1'' None
                               ''application/xml'' ''default''),
                  Extract ''ms001.xml'' ''p1'' None ''default'']\<rparr>)"
    using t h(1) by (simp add: use_disk_cache_default x ms001_fields tw)
  have 2: "custom_document_view default_cache None wrapping_engines corpus (Some ''ms001'')
       (Some ''p1'') None None None (Some ''html'') w
     = (Inr (Reply \<lparr>data = JStr ''<div><p>p1</p></div>'', status = 200, mimetype = ''html''\<rparr>),
        w\<lparr>disk := (disk w)\<lparr>files := (files (disk w))
              (get_cache_path default_cache ''ms001'' ''p1'' None ''html'' ''default''
                 \<mapsto> Json (envelope ''<div><p>p1</p></div>''))\<rparr>,
          trace :=
            [CacheRead (get_cache_path default_cache ''ms001'' ''p1'' None ''html''
                          ''default''),
             CacheRead (get_cache_path default_cache ''ms001'' ''p1'' None ''application/xml''
                          ''default''),
             Extract ''ms001.xml'' ''p1'' None ''default'',
             Transform ''html'' (JStr ''<p>p1</p>'')]
            @ saved_events (get_cache_path default_cache ''ms001'' ''p1'' None ''html''
                              ''default'') ''<div><p>p1</p></div>''\<rparr>)"
    using t h(2) b x tf nf resolve_p1 a ne
    by (simp add: use_disk_cache_default ms001_fields tw)
  have 3: "prerender_reference default_cache wrapping_engines ms001 ''default'' False []
       \<lparr>ref_identifier = ''p1''\<rparr> 0 w
     = (Inr 1,
        w\<lparr>disk := (disk w)\<lparr>files := (files (disk w))
              (get_cache_path default_cache ''ms001'' ''p1'' None ''application/xml''
                 ''default'' \<mapsto> Json (envelope ''<p>p1</p>''))\<rparr>,
          trace :=
            [CacheRead (get_cache_path default_cache ''ms001'' ''p1'' None ''application/xml''
                          ''default''),
             Extract ''ms001.xml'' ''p1'' None ''default'']
            @ saved_events (get_cache_path default_cache ''ms001'' ''p1'' None
                              ''application/xml'' ''default'') ''<p>p1</p>''\<rparr>)"
    using t h(3) x nf
    by (simp add: ms001_fields tw DEFAULT_MEDIA_TYPE_def)
  have 4: "prerender_media_types default_cache wrapping_engines ms001 ''default'' ''p1''
       (JStr ''<p>p1</p>'') False [''html''] 0 w
     = (Inr 0,
        w\<lparr>trace := [CacheRead (get_cache_path default_cache ''ms001'' ''p1'' None ''html''
                                 ''default'')]\<rparr>)"
    using t h(2) by (simp add: ms001_fields tw)
  have 5: "holds_empty default_cache
       (disk (snd (save_cache default_cache ''ms001'' ''p1'' None ''html'' ''default'' [] w)))
       ms001 ''p1'' None ''html'' ''default''"
    using t nf by (simp add: ms001_fields)
  show ?thesis
    unfolding w_def [symmetric] 1 2 3 4
    using 5 by (simp add: saved_events_def) (simp add: w_def)
qed


section \<open>The batch generator on a warmed cache\<close>

lemma entry_holdsD:
  assumes "entry_holds P c (disk w) cl t rid m"
  shows "\<exists>v. get_cache c cl rid None m t w
             = (Inr v, emit (CacheRead (get_cache_path c (coll_identifier cl) rid None m t)) w)
           \<and> P v"
  using assms
  by (auto simp: entry_holds_def get_cache_def Let_def
      split: option.splits cache_file.splits json.splits)

lemma emit_trace: "emit e w = w\<lparr>trace := trace w @ [e]\<rparr>"
  by (simp add: emit_def)

lemma warm_media_types:
  assumes "list_all (entry_holds is_hit c (disk w) cl t rid) ms"
  shows "\<exists>reads. prerender_media_types c eng cl t rid base False ms n w
                 = (Inr n, w\<lparr>trace := trace w @ reads\<rparr>)
               \<and> list_all is_cache_read reads"
  using assms
proof (induction ms arbitrary: w)
  case Nil
  have "prerender_media_types c eng cl t rid base False [] n w
        = (Inr n, w\<lparr>trace := trace w @ []\<rparr>)" by simp
  moreover have "list_all is_cache_read []" by simp
  ultimately show ?case by blast
next
  case (Cons m ms)
  define p where "p = get_cache_path c (coll_identifier cl) rid None m t"
  from Cons.prems have "entry_holds is_hit c (disk w) cl t rid m" by simp
  from entry_holdsD [OF this] obtain v where
    g: "get_cache c cl rid None m t w = (Inr v, emit (CacheRead p) w)" and "is_hit v"
    by (auto simp: p_def)
  then have v: "v \<noteq> JNull" by (simp add: is_hit_def)
  have "list_all (entry_holds is_hit c (disk (emit (CacheRead p) w)) cl t rid) ms"
    using Cons.prems by (simp add: emit_def)
  from Cons.IH [OF this] obtain reads where
    r: "prerender_media_types c eng cl t rid base False ms n (emit (CacheRead p) w)
        = (Inr n, (emit (CacheRead p) w)\<lparr>trace := trace (emit (CacheRead p) w) @ reads\<rparr>)"
    and a: "list_all is_cache_read reads"
    by blast
  have "prerender_media_types c eng cl t rid base False (m # ms) n w
        = (Inr n, w\<lparr>trace := trace w @ (CacheRead p # reads)\<rparr>)"
    using g v r by (simp add: and_then_def emit_def)
  moreover have "list_all is_cache_read (CacheRead p # reads)"
    using a by simp
  ultimately show ?case by blast
qed

lemma warm_reference:
  assumes "warmed_reference c (disk w) cl ms t ref"
  shows "\<exists>reads. prerender_reference c eng cl t False ms ref n w
                 = (Inr n, w\<lparr>trace := trace w @ reads\<rparr>)
               \<and> list_all is_cache_read reads"
proof -
  define rid where "rid = ref_identifier ref"
  define p where "p = get_cache_path c (coll_identifier cl) rid None DEFAULT_MEDIA_TYPE t"
  from assms have "entry_holds truthy c (disk w) cl t rid DEFAULT_MEDIA_TYPE"
    by (simp add: warmed_reference_def rid_def)
  from entry_holdsD [OF this] obtain v where
    g: "get_cache c cl rid None DEFAULT_MEDIA_TYPE t w = (Inr v, emit (CacheRead p) w)"
    and v: "truthy v"
    by (auto simp: p_def)
  have "list_all (entry_holds is_hit c (disk (emit (CacheRead p) w)) cl t rid) ms"
    using assms by (simp add: warmed_reference_def rid_def emit_def)
  from warm_media_types [OF this] obtain reads where
    r: "prerender_media_types c eng cl t rid v False ms n (emit (CacheRead p) w)
        = (Inr n, (emit (CacheRead p) w)\<lparr>trace := trace (emit (CacheRead p) w) @ reads\<rparr>)"
    and a: "list_all is_cache_read reads"
    by blast
  have "prerender_reference c eng cl t False ms ref n w
        = (Inr n, w\<lparr>trace := trace w @ (CacheRead p # reads)\<rparr>)"
    using g v r
    by (simp add: prerender_reference_def Let_def rid_def [symmetric] and_then_def emit_def)
  moreover have "list_all is_cache_read (CacheRead p # reads)"
    using a by simp
  ultimately show ?thesis by blast
qed

lemma warm_references:
  assumes "list_all (warmed_reference c (disk w) cl ms t) refs"
  shows "\<exists>reads. prerender_references c eng cl t False ms refs n w
                 = (Inr n, w\<lparr>trace := trace w @ reads\<rparr>)
               \<and> list_all is_cache_read reads"
  using assms
proof (induction refs arbitrary: w)
  case Nil
  have "prerender_references c eng cl t False ms [] n w
        = (Inr n, w\<lparr>trace := trace w @ []\<rparr>)" by simp
  moreover have "list_all is_cache_read []" by simp
  ultimately show ?case by blast
next
  case (Cons ref refs)
  from Cons.prems have "warmed_reference c (disk w) cl ms t ref" by simp
  from warm_reference [OF this] obtain r1 where
    1: "prerender_reference c eng cl t False ms ref n w = (Inr n, w\<lparr>trace := trace w @ r1\<rparr>)"
    and a1: "list_all is_cache_read r1"
    by blast
  have "list_all (warmed_reference c (disk (w\<lparr>trace := trace w @ r1\<rparr>)) cl ms t) refs"
    using Cons.prems by simp
  from Cons.IH [OF this] obtain r2 where
    2: "prerender_references c eng cl t False ms refs n (w\<lparr>trace := trace w @ r1\<rparr>)
        = (Inr n, w\<lparr>trace := trace w @ r1\<rparr>\<lparr>trace := trace (w\<lparr>trace := trace w @ r1\<rparr>) @ r2\<rparr>)"
    and a2: "list_all is_cache_read r2"
    by blast
  have "prerender_references c eng cl t False ms (ref # refs) n w
        = (Inr n, w\<lparr>trace := trace w @ (r1 @ r2)\<rparr>)"
    using 1 2 by (simp add: and_then_def)
  moreover have "list_all is_cache_read (r1 @ r2)"
    using a1 a2 by simp
  ultimately show ?case by blast
qed

lemma warm_trees:
  assumes "list_all (\<lambda>(tree, refs). list_all (warmed_reference c (disk w) cl ms tree) refs)
             trees"
  shows "\<exists>reads. prerender_trees c eng cl False ms trees n w
                 = (Inr n, w\<lparr>trace := trace w @ reads\<rparr>)
               \<and> list_all is_cache_read reads"
  using assms
proof (induction trees arbitrary: w)
  case Nil
  have "prerender_trees c eng cl False ms [] n w = (Inr n, w\<lparr>trace := trace w @ []\<rparr>)"
    by simp
  moreover have "list_all is_cache_read []" by simp
  ultimately show ?case by blast
next
  case (Cons tr trees)
  obtain tree refs where tr: "tr = (tree, refs)" by (cases tr)
  from Cons.prems have "list_all (warmed_reference c (disk w) cl ms tree) refs"
    by (simp add: tr)
  from warm_references [OF this] obtain r1 where
    1: "prerender_references c eng cl tree False ms refs n w
        = (Inr n, w\<lparr>trace := trace w @ r1\<rparr>)"
    and a1: "list_all is_cache_read r1"
    by blast
  have "list_all (\<lambda>(tree, refs).
            list_all (warmed_reference c (disk (w\<lparr>trace := trace w @ r1\<rparr>)) cl ms tree) refs)
          trees"
    using Cons.prems by simp
  from Cons.IH [OF this] obtain r2 where
    2: "prerender_trees c eng cl False ms trees n (w\<lparr>trace := trace w @ r1\<rparr>)
        = (Inr n, w\<lparr>trace := trace w @ r1\<rparr>\<lparr>trace := trace (w\<lparr>trace := trace w @ r1\<rparr>) @ r2\<rparr>)"
    and a2: "list_all is_cache_read r2"
    by blast
  have "prerender_trees c eng cl False ms (tr # trees) n w
        = (Inr n, w\<lparr>trace := trace w @ (r1 @ r2)\<rparr>)"
    using 1 2 by (simp add: tr and_then_def)
  moreover have "list_all is_cache_read (r1 @ r2)"
    using a1 a2 by simp
  ultimately show ?case by blast
qed

lemma find_in_set: "find P xs = Some x \<Longrightarrow> x \<in> set xs \<and> P x"
  by (induction xs) (auto split: if_splits)

lemma find_exists: "\<exists>x \<in> set xs. P x \<Longrightarrow> \<exists>y. find P xs = Some y"
  by (induction xs) auto

lemma warm_collection:
  assumes "fully_warmed c (disk w) db ms"
    and "navigation_id \<in> nav_id ` set (navigations db)"
  shows "\<exists>reads. prerender_collection c eng db (navigation_id, ms, False) w
                 = (Inr 0, w\<lparr>trace := trace w @ reads\<rparr>)
               \<and> list_all is_cache_read reads"
proof -
  from assms(2) obtain nv where
    nv: "find (\<lambda>nv. nav_id nv = navigation_id) (navigations db) = Some nv"
    using find_exists [of "navigations db" "\<lambda>nv. nav_id nv = navigation_id"] by auto
  then have "nv \<in> set (navigations db)" using find_in_set by fastforce
  with assms(1) have wn: "warmed_navigation c (disk w) db ms nv"
    by (simp add: fully_warmed_def list_all_iff)
  show ?thesis
  proof (cases "find (\<lambda>cl. coll_id cl = collection_id nv) (collections db)")
    case None
    with wn have "concat (map snd (references nv)) = []"
      by (simp add: warmed_navigation_def)
    then have "prerender_collection c eng db (navigation_id, ms, False) w
               = (Inr 0, w\<lparr>trace := trace w @ []\<rparr>)"
      using nv None by (simp add: prerender_collection_def)
    moreover have "list_all is_cache_read []" by simp
    ultimately show ?thesis by blast
  next
    case (Some cl)
    with wn have wt: "list_all (\<lambda>(tree, refs).
               list_all (warmed_reference c (disk w) cl ms tree) refs) (references nv)"
      by (simp add: warmed_navigation_def)
    from warm_trees [OF wt] obtain reads where
      "prerender_trees c eng cl False ms (references nv) 0 w
         = (Inr 0, w\<lparr>trace := trace w @ reads\<rparr>)" "list_all is_cache_read reads"
      by blast
    then show ?thesis
      using nv Some by (auto simp: prerender_collection_def)
  qed
qed

lemma warm_all:
  assumes "fully_warmed c (disk w) db ms"
    and "set ids \<subseteq> nav_id ` set (navigations db)"
  shows "\<exists>reads. prerender_all c eng db ms False ids n w
                 = (Inr n, w\<lparr>trace := trace w @ reads\<rparr>)
               \<and> list_all is_cache_read reads"
  using assms
proof (induction ids arbitrary: w n)
  case Nil
  have "prerender_all c eng db ms False [] n w = (Inr n, w\<lparr>trace := trace w @ []\<rparr>)"
    by simp
  moreover have "list_all is_cache_read []" by simp
  ultimately show ?case by blast
next
  case (Cons i ids)
  from Cons.prems have "i \<in> nav_id ` set (navigations db)" by simp
  from warm_collection [OF Cons.prems(1) this] obtain r1 where
    1: "prerender_collection c eng db (i, ms, False) w = (Inr 0, w\<lparr>trace := trace w @ r1\<rparr>)"
    and a1: "list_all is_cache_read r1"
    by blast
  have "fully_warmed c (disk (w\<lparr>trace := trace w @ r1\<rparr>)) db ms"
    using Cons.prems(1) by simp
  from Cons.IH [OF this] Cons.prems(2) obtain r2 where
    2: "prerender_all c eng db ms False ids n (w\<lparr>trace := trace w @ r1\<rparr>)
        = (Inr n, w\<lparr>trace := trace w @ r1\<rparr>\<lparr>trace := trace (w\<lparr>trace := trace w @ r1\<rparr>) @ r2\<rparr>)"
    and a2: "list_all is_cache_read r2"
    by auto
  have "prerender_all c eng db ms False (i # ids) n w
        = (Inr n, w\<lparr>trace := trace w @ (r1 @ r2)\<rparr>)"
    using 1 2 by (simp add: and_then_def)
  moreover have "list_all is_cache_read (r1 @ r2)"
    using a1 a2 by simp
  ultimately show ?case by blast
qed

text \<open>
  C4. On a corpus whose cache is fully warmed, the \<^verbatim>\<open>prerender\<close> command without force
  writes nothing and leaves every cache entry as it is: the world after the run is the
  world before it with cache lookups added to the trace, so no file is written, no
  directory is created and neither engine is called. The command reports zero generated
  pages, or ends with the \<^verbatim>\<open>ValueError\<close> of a pool without processes when there is no
  navigation or fewer than one worker is asked for. The same holds for the loop over the
  navigations taken in any order: the warmed state is a fixed point.
\<close>

theorem warmed_cache_is_fixed_point:
  assumes "fully_warmed c (disk w) db media_types"
    and "set ids \<subseteq> nav_id ` set (navigations db)"
  shows "(\<exists>reads. snd (prerender c eng db media_types workers False w)
                   = w\<lparr>trace := trace w @ reads\<rparr>
                 \<and> list_all is_cache_read reads)
       \<and> fst (prerender c eng db media_types workers False w)
           = (if min workers (int (length (navigations db))) < 1 then Inl ValueError
              else Inr 0)
       \<and> (\<exists>reads. prerender_all c eng db media_types False ids n w
                   = (Inr n, w\<lparr>trace := trace w @ reads\<rparr>)
                 \<and> list_all is_cache_read reads)"
proof (intro conjI)
  have "set (map nav_id (navigations db)) \<subseteq> nav_id ` set (navigations db)" by simp
  from warm_all [OF assms(1) this, of eng 0] obtain reads where
    r: "prerender_all c eng db media_types False (map nav_id (navigations db)) 0 w
        = (Inr 0, w\<lparr>trace := trace w @ reads\<rparr>)"
    and a: "list_all is_cache_read reads"
    by blast
  show "\<exists>reads. snd (prerender c eng db media_types workers False w)
                   = w\<lparr>trace := trace w @ reads\<rparr>
                 \<and> list_all is_cache_read reads"
  proof (cases "min workers (int (length (navigations db))) < 1")
    case True
    then have "snd (prerender c eng db media_types workers False w) = w\<lparr>trace := trace w @ []\<rparr>"
      by (simp add: prerender_def Let_def)
    moreover have "list_all is_cache_read []" by simp
    ultimately show ?thesis by blast
  next
    case False
    then have "snd (prerender c eng db media_types workers False w)
               = w\<lparr>trace := trace w @ reads\<rparr>"
      using r by (simp add: prerender_def Let_def)
    with a show ?thesis by blast
  qed
  show "fst (prerender c eng db media_types workers False w)
           = (if min workers (int (length (navigations db))) < 1 then Inl ValueError
              else Inr 0)"
    using r by (simp add: prerender_def Let_def)
  from warm_all [OF assms]
  show "\<exists>reads. prerender_all c eng db media_types False ids n w
                   = (Inr n, w\<lparr>trace := trace w @ reads\<rparr>)
                 \<and> list_all is_cache_read reads" .
qed

text \<open>
  With no navigation in the database, or with fewer than one worker asked for, the
  command ends with the \<^verbatim>\<open>ValueError\<close> of the pool before any work item is run.
\<close>

lemma prerender_without_processes_raises:
  "navigations db = [] \<or> workers < 1 \<Longrightarrow>
   prerender c eng db media_types workers force w = (Inl ValueError, w)"
  by (auto simp: prerender_def Let_def)

lemma entry_holds_scenario:
  "get_cache_path c (coll_identifier cl) rid None m t \<in> set scenario_paths \<Longrightarrow>
   entry_holds P c (scenario_disk s) cl t rid m = P (JStr s)"
  by (simp add: entry_holds_def get_cache_def scenario_files Let_def envelope_def dict_get_def)

theorem warmed_cache_is_fixed_point_witness:
  "fully_warmed default_cache (scenario_disk ''<TEI/>'') corpus [''html'']
   \<and> prerender default_cache wrapping_engines corpus [''html''] 1 False
       (fresh_world\<lparr>disk := scenario_disk ''<TEI/>''\<rparr>)
     = (Inr 0,
        fresh_world\<lparr>disk := scenario_disk ''<TEI/>'',
          trace := trace (snd (prerender default_cache wrapping_engines corpus [''html''] 1
                                 False (fresh_world\<lparr>disk := scenario_disk ''<TEI/>''\<rparr>)))\<rparr>)
   \<and> list_all is_cache_read
       (trace (snd (prerender default_cache wrapping_engines corpus [''html''] 1 False
                      (fresh_world\<lparr>disk := scenario_disk ''<TEI/>''\<rparr>))))"
proof -
  define w where "w = fresh_world\<lparr>disk := scenario_disk ''<TEI/>''\<rparr>"
  have 1: "fully_warmed default_cache (disk w) corpus [''html'']"
    by (simp add: fully_warmed_def warmed_navigation_def corpus_def nav001_def
          ms001_def warmed_reference_def entry_holds_scenario scenario_keys ms001_fields
          DEFAULT_MEDIA_TYPE_def is_hit_def w_def)
  have 2: "set [7] \<subseteq> nav_id ` set (navigations corpus)"
    by (simp add: corpus_def nav001_def)
  have 3: "\<not> min 1 (int (length (navigations corpus))) < 1"
    by (simp add: corpus_def)
  have 4: "trace w = []"
    by (simp add: w_def fresh_world_def)
  from warmed_cache_is_fixed_point [OF 1 2, of wrapping_engines 1 0] obtain reads where
    s: "snd (prerender default_cache wrapping_engines corpus [''html''] 1 False w)
        = w\<lparr>trace := trace w @ reads\<rparr>"
    and a: "list_all is_cache_read reads"
    and f: "fst (prerender default_cache wrapping_engines corpus [''html''] 1 False w) = Inr 0"
    using 3 by auto
  have "prerender default_cache wrapping_engines corpus [''html''] 1 False w
        = (Inr 0, w\<lparr>trace := reads\<rparr>)"
    using s f by (simp add: prod_eq_iff 4)
  then show ?thesis
    using 1 a unfolding w_def [symmetric] by (simp add: w_def)
qed


section \<open>The batch generator under force\<close>


















end
